theory Spec2Isabelle
  imports Complex_Main "HOL-Library.Multiset"
begin

section \<open>JavaScript numbers\<close>

text \<open>
  The service computes on JavaScript numbers.  A number is modelled as a real extended by
  the three special values of the language: \<open>NaN\<close>, \<open>Infinity\<close> and \<open>-Infinity\<close>.
  Arithmetic on finite values is exact real arithmetic: the rounding and the overflow of
  IEEE-754 doubles are not modelled, and there is a single zero.
\<close>

datatype jsnum = NaN | PInf | NInf | Fin real

fun js_neg :: "jsnum \<Rightarrow> jsnum" where
  "js_neg NaN = NaN"
| "js_neg PInf = NInf"
| "js_neg NInf = PInf"
| "js_neg (Fin x) = Fin (- x)"

text \<open>\<^verbatim>\<open>a + b\<close> on numbers.\<close>

fun js_add :: "jsnum \<Rightarrow> jsnum \<Rightarrow> jsnum" where
  "js_add NaN _ = NaN"
| "js_add _ NaN = NaN"
| "js_add PInf NInf = NaN"
| "js_add NInf PInf = NaN"
| "js_add PInf _ = PInf"
| "js_add _ PInf = PInf"
| "js_add NInf _ = NInf"
| "js_add _ NInf = NInf"
| "js_add (Fin x) (Fin y) = Fin (x + y)"

text \<open>\<^verbatim>\<open>a - b\<close> on numbers.\<close>

definition js_sub :: "jsnum \<Rightarrow> jsnum \<Rightarrow> jsnum" where
  "js_sub a b = js_add a (js_neg b)"

text \<open>The sign of an infinite product or quotient: positive when both signs agree.\<close>

definition signed_inf :: "bool \<Rightarrow> jsnum" where
  "signed_inf positive = (if positive then PInf else NInf)"

text \<open>\<^verbatim>\<open>a * b\<close> on numbers; infinity times zero is \<open>NaN\<close>.\<close>

fun js_mul :: "jsnum \<Rightarrow> jsnum \<Rightarrow> jsnum" where
  "js_mul NaN _ = NaN"
| "js_mul _ NaN = NaN"
| "js_mul (Fin x) (Fin y) = Fin (x * y)"
| "js_mul (Fin x) PInf = (if x = 0 then NaN else signed_inf (0 < x))"
| "js_mul (Fin x) NInf = (if x = 0 then NaN else signed_inf (x < 0))"
| "js_mul PInf (Fin y) = (if y = 0 then NaN else signed_inf (0 < y))"
| "js_mul NInf (Fin y) = (if y = 0 then NaN else signed_inf (y < 0))"
| "js_mul PInf PInf = PInf"
| "js_mul NInf NInf = PInf"
| "js_mul PInf NInf = NInf"
| "js_mul NInf PInf = NInf"

text \<open>
  \<^verbatim>\<open>a / b\<close> on numbers.  A zero divisor is taken as \<open>+0\<close>; the functions modelled
  here only divide by the non-zero constants 2, 45 and 180.
\<close>

fun js_div :: "jsnum \<Rightarrow> jsnum \<Rightarrow> jsnum" where
  "js_div NaN _ = NaN"
| "js_div _ NaN = NaN"
| "js_div (Fin x) (Fin y) =
     (if y = 0 then (if x = 0 then NaN else signed_inf (0 < x)) else Fin (x / y))"
| "js_div (Fin x) PInf = Fin 0"
| "js_div (Fin x) NInf = Fin 0"
| "js_div PInf (Fin y) = signed_inf (0 \<le> y)"
| "js_div NInf (Fin y) = signed_inf (y < 0)"
| "js_div PInf PInf = NaN"
| "js_div PInf NInf = NaN"
| "js_div NInf PInf = NaN"
| "js_div NInf NInf = NaN"

text \<open>
  \<^verbatim>\<open>a % b\<close> on numbers: the remainder of the division truncated towards zero, with the
  sign of the dividend.
\<close>

definition trunc :: "real \<Rightarrow> int" where
  "trunc x = (if 0 \<le> x then \<lfloor>x\<rfloor> else \<lceil>x\<rceil>)"

fun js_rem :: "jsnum \<Rightarrow> jsnum \<Rightarrow> jsnum" where
  "js_rem NaN _ = NaN"
| "js_rem _ NaN = NaN"
| "js_rem PInf _ = NaN"
| "js_rem NInf _ = NaN"
| "js_rem (Fin x) PInf = Fin x"
| "js_rem (Fin x) NInf = Fin x"
| "js_rem (Fin x) (Fin y) = (if y = 0 then NaN else Fin (x - y * of_int (trunc (x / y))))"

text \<open>\<^verbatim>\<open>a <= b\<close> on numbers: false as soon as one side is \<open>NaN\<close>.\<close>

fun js_le :: "jsnum \<Rightarrow> jsnum \<Rightarrow> bool" where
  "js_le NaN _ = False"
| "js_le _ NaN = False"
| "js_le NInf _ = True"
| "js_le _ PInf = True"
| "js_le PInf _ = False"
| "js_le _ NInf = False"
| "js_le (Fin x) (Fin y) = (x \<le> y)"

text \<open>\<^verbatim>\<open>a < b\<close>, \<^verbatim>\<open>a >= b\<close> and \<^verbatim>\<open>a > b\<close> on numbers.\<close>

fun js_lt :: "jsnum \<Rightarrow> jsnum \<Rightarrow> bool" where
  "js_lt NaN _ = False"
| "js_lt _ NaN = False"
| "js_lt PInf _ = False"
| "js_lt _ NInf = False"
| "js_lt NInf _ = True"
| "js_lt _ PInf = True"
| "js_lt (Fin x) (Fin y) = (x < y)"

definition js_ge :: "jsnum \<Rightarrow> jsnum \<Rightarrow> bool" where
  "js_ge a b = js_le b a"

definition js_gt :: "jsnum \<Rightarrow> jsnum \<Rightarrow> bool" where
  "js_gt a b = js_lt b a"

subsection \<open>The \<^verbatim>\<open>Math\<close> object\<close>

definition Math_PI :: jsnum where
  "Math_PI = Fin pi"

fun Math_sin :: "jsnum \<Rightarrow> jsnum" where
  "Math_sin (Fin x) = Fin (sin x)"
| "Math_sin _ = NaN"

fun Math_cos :: "jsnum \<Rightarrow> jsnum" where
  "Math_cos (Fin x) = Fin (cos x)"
| "Math_cos _ = NaN"

fun Math_sqrt :: "jsnum \<Rightarrow> jsnum" where
  "Math_sqrt (Fin x) = (if x < 0 then NaN else Fin (sqrt x))"
| "Math_sqrt PInf = PInf"
| "Math_sqrt _ = NaN"

text \<open>The angle of the point \<open>(x, y)\<close>, in \<open>(-\<pi>, \<pi>]\<close>; the angle of the origin is 0.\<close>

definition atan2 :: "real \<Rightarrow> real \<Rightarrow> real" where
  "atan2 y x =
     (if 0 < x then arctan (y / x)
      else if x < 0 then (if 0 \<le> y then arctan (y / x) + pi else arctan (y / x) - pi)
      else if 0 < y then pi / 2
      else if y < 0 then - (pi / 2)
      else 0)"

fun Math_atan2 :: "jsnum \<Rightarrow> jsnum \<Rightarrow> jsnum" where
  "Math_atan2 NaN _ = NaN"
| "Math_atan2 _ NaN = NaN"
| "Math_atan2 (Fin y) (Fin x) = Fin (atan2 y x)"
| "Math_atan2 (Fin y) PInf = Fin 0"
| "Math_atan2 (Fin y) NInf = Fin (if 0 \<le> y then pi else - pi)"
| "Math_atan2 PInf (Fin x) = Fin (pi / 2)"
| "Math_atan2 NInf (Fin x) = Fin (- (pi / 2))"
| "Math_atan2 PInf PInf = Fin (pi / 4)"
| "Math_atan2 PInf NInf = Fin (3 * pi / 4)"
| "Math_atan2 NInf PInf = Fin (- (pi / 4))"
| "Math_atan2 NInf NInf = Fin (- (3 * pi / 4))"

text \<open>\<^verbatim>\<open>Math.round\<close>: the nearest integer, a tie going up.\<close>

fun Math_round :: "jsnum \<Rightarrow> jsnum" where
  "Math_round (Fin x) = Fin (of_int \<lfloor>x + 1 / 2\<rfloor>)"
| "Math_round n = n"

fun Math_max :: "jsnum \<Rightarrow> jsnum \<Rightarrow> jsnum" where
  "Math_max NaN _ = NaN"
| "Math_max _ NaN = NaN"
| "Math_max a b = (if js_le a b then b else a)"

fun Math_min :: "jsnum \<Rightarrow> jsnum \<Rightarrow> jsnum" where
  "Math_min NaN _ = NaN"
| "Math_min _ NaN = NaN"
| "Math_min a b = (if js_le a b then a else b)"

section \<open>JavaScript values\<close>

text \<open>
  The functions of the service are called with values of any shape, so their arguments are
  modelled as JavaScript data values: the primitives (symbols included), arrays, and plain
  objects whose own properties are data properties, in insertion order.  A string is the list
  of its bytes in UTF-8.  \<^verbatim>\<open>BigInt\<close> values, functions, accessor properties and proxies
  are outside the model.
\<close>

datatype jsval =
    JUndefined
  | JNull
  | JBool bool
  | JNum jsnum
  | JStr string
  | JSym string
  | JArr "jsval list"
  | JObj "(string \<times> jsval) list"

text \<open>
  A thrown exception.  Every exception of the model is a \<^verbatim>\<open>TypeError\<close> raised by the
  language itself; it carries its \<^verbatim>\<open>message\<close> (the texts are those of V8, the engine of
  Node.js).
\<close>

datatype exn = TypeError string

fun exn_message :: "exn \<Rightarrow> string" where
  "exn_message (TypeError m) = m"

text \<open>\<^verbatim>\<open>typeof v === 'number'\<close>.\<close>

fun is_number :: "jsval \<Rightarrow> bool" where
  "is_number (JNum _) = True"
| "is_number _ = False"

text \<open>Truthiness, as tested by \<^verbatim>\<open>!v\<close>, \<^verbatim>\<open>if (v)\<close> and \<^verbatim>\<open>v || d\<close>.\<close>

fun ToBoolean :: "jsval \<Rightarrow> bool" where
  "ToBoolean JUndefined = False"
| "ToBoolean JNull = False"
| "ToBoolean (JBool b) = b"
| "ToBoolean (JNum n) = (n \<noteq> NaN \<and> n \<noteq> Fin 0)"
| "ToBoolean (JStr s) = (s \<noteq> [])"
| "ToBoolean (JSym _) = True"
| "ToBoolean (JArr _) = True"
| "ToBoolean (JObj _) = True"

text \<open>\<^verbatim>\<open>a || b\<close>: the first operand when it is truthy, the second otherwise.\<close>

definition js_or :: "jsval \<Rightarrow> jsval \<Rightarrow> jsval" where
  "js_or a b = (if ToBoolean a then a else b)"

text \<open>
  Property access, for the property names the service reads (\<^verbatim>\<open>latitude\<close>,
  \<^verbatim>\<open>longitude\<close>, \<^verbatim>\<open>coordinates\<close>, \<^verbatim>\<open>radiusMeters\<close>, \<^verbatim>\<open>isEmulator\<close>,
  \<^verbatim>\<open>isMockLocation\<close>): none of them is defined on a built-in prototype, so the value
  is the own property of an object and \<^verbatim>\<open>undefined\<close> on anything else.

  \<^verbatim>\<open>v?.k\<close> is \<^verbatim>\<open>undefined\<close> when \<open>v\<close> is \<^verbatim>\<open>null\<close> or \<^verbatim>\<open>undefined\<close>, and never
  throws.
\<close>

fun opt_get_prop :: "jsval \<Rightarrow> string \<Rightarrow> jsval" where
  "opt_get_prop (JObj fs) k = (case map_of fs k of Some v \<Rightarrow> v | None \<Rightarrow> JUndefined)"
| "opt_get_prop _ k = JUndefined"

text \<open>\<^verbatim>\<open>v.k\<close> throws when \<open>v\<close> is \<^verbatim>\<open>null\<close> or \<^verbatim>\<open>undefined\<close>.\<close>

fun get_prop :: "jsval \<Rightarrow> string \<Rightarrow> exn + jsval" where
  "get_prop JUndefined k =
     Inl (TypeError (''Cannot read properties of undefined (reading '' @ [CHR 0x27] @ k @ [CHR 0x27] @ '')''))"
| "get_prop JNull k =
     Inl (TypeError (''Cannot read properties of null (reading '' @ [CHR 0x27] @ k @ [CHR 0x27] @ '')''))"
| "get_prop v k = Inr (opt_get_prop v k)"

subsection \<open>Conversion to a number\<close>

text \<open>
  \<^verbatim>\<open>Number(s)\<close> on a string: white space is trimmed at both ends; the empty text is 0;
  otherwise the text must be a decimal literal with an optional sign (digits with an
  optional fraction and exponent, or \<^verbatim>\<open>Infinity\<close>), or an unsigned binary, octal or
  hexadecimal integer literal; anything else is \<open>NaN\<close>.  The value is the exact value
  of the literal: it is not rounded to a double, and a literal beyond the range of
  doubles is not \<open>Infinity\<close>.
\<close>

definition white_space :: "string list" where
  "white_space =
     [[CHR 0x09], [CHR 0x0A], [CHR 0x0B], [CHR 0x0C], [CHR 0x0D], [CHR 0x20],
      [CHR 0xC2, CHR 0xA0], [CHR 0xE1, CHR 0x9A, CHR 0x80],
      [CHR 0xE2, CHR 0x80, CHR 0x80], [CHR 0xE2, CHR 0x80, CHR 0x81],
      [CHR 0xE2, CHR 0x80, CHR 0x82], [CHR 0xE2, CHR 0x80, CHR 0x83],
      [CHR 0xE2, CHR 0x80, CHR 0x84], [CHR 0xE2, CHR 0x80, CHR 0x85],
      [CHR 0xE2, CHR 0x80, CHR 0x86], [CHR 0xE2, CHR 0x80, CHR 0x87],
      [CHR 0xE2, CHR 0x80, CHR 0x88], [CHR 0xE2, CHR 0x80, CHR 0x89],
      [CHR 0xE2, CHR 0x80, CHR 0x8A], [CHR 0xE2, CHR 0x80, CHR 0xA8],
      [CHR 0xE2, CHR 0x80, CHR 0xA9], [CHR 0xE2, CHR 0x80, CHR 0xAF],
      [CHR 0xE2, CHR 0x81, CHR 0x9F], [CHR 0xE3, CHR 0x80, CHR 0x80],
      [CHR 0xEF, CHR 0xBB, CHR 0xBF]]"

text \<open>Dropping the white space at the front of a text (\<open>n\<close> bounds the number of steps).\<close>

fun drop_space :: "string list \<Rightarrow> nat \<Rightarrow> string \<Rightarrow> string" where
  "drop_space ws 0 s = s"
| "drop_space ws (Suc n) s =
     (case List.find (\<lambda>w. take (length w) s = w) ws of
        None \<Rightarrow> s
      | Some w \<Rightarrow> drop_space ws n (drop (length w) s))"

definition trim :: "string \<Rightarrow> string" where
  "trim s =
     (let t = drop_space white_space (length s) s
      in rev (drop_space (map rev white_space) (length t) (rev t)))"

definition digit_value :: "char \<Rightarrow> nat" where
  "digit_value c =
     (let n = (of_char c :: nat)
      in if 48 \<le> n \<and> n \<le> 57 then n - 48
         else if 97 \<le> n \<and> n \<le> 102 then n - 87
         else if 65 \<le> n \<and> n \<le> 70 then n - 55
         else 99)"

definition is_digit :: "nat \<Rightarrow> char \<Rightarrow> bool" where
  "is_digit base c = (digit_value c < base)"

text \<open>The value of a non-empty text of digits in the given base.\<close>

definition digits :: "nat \<Rightarrow> string \<Rightarrow> nat option" where
  "digits base s =
     (if s \<noteq> [] \<and> list_all (is_digit base) s
      then Some (foldl (\<lambda>a c. a * base + digit_value c) 0 s)
      else None)"

text \<open>The exponent part: nothing, or \<^verbatim>\<open>e\<close> or \<^verbatim>\<open>E\<close>, an optional sign, and digits.\<close>

fun exponent_part :: "string \<Rightarrow> int option" where
  "exponent_part [] = Some 0"
| "exponent_part (c # s) =
     (if c = CHR ''e'' \<or> c = CHR ''E'' then
        (case s of
           [] \<Rightarrow> None
         | d # t \<Rightarrow>
             if d = CHR ''-'' then map_option (\<lambda>n. - int n) (digits 10 t)
             else if d = CHR ''+'' then map_option int (digits 10 t)
             else map_option int (digits 10 s))
      else None)"

definition scale10 :: "real \<Rightarrow> int \<Rightarrow> real" where
  "scale10 m e = (if 0 \<le> e then m * 10 ^ nat e else m / 10 ^ nat (- e))"

definition unsigned_decimal :: "string \<Rightarrow> jsnum option" where
  "unsigned_decimal s =
     (if s = ''Infinity'' then Some PInf
      else
        let ip = takeWhile (is_digit 10) s;
            r = dropWhile (is_digit 10) s;
            dot = (r \<noteq> [] \<and> hd r = CHR ''.'');
            fp = (if dot then takeWhile (is_digit 10) (tl r) else []);
            ex = (if dot then dropWhile (is_digit 10) (tl r) else r)
        in if ip = [] \<and> fp = [] then None
           else case exponent_part ex of
                  None \<Rightarrow> None
                | Some e \<Rightarrow>
                    Some (Fin (scale10
                      (real (foldl (\<lambda>a c. a * 10 + digit_value c) 0 ip)
                       + real (foldl (\<lambda>a c. a * 10 + digit_value c) 0 fp) / 10 ^ length fp) e)))"

definition radix_literal :: "string \<Rightarrow> jsnum option" where
  "radix_literal s =
     (case s of
        z # p # t \<Rightarrow>
          if z \<noteq> CHR ''0'' then None
          else if p = CHR ''x'' \<or> p = CHR ''X'' then map_option (\<lambda>n. Fin (real n)) (digits 16 t)
          else if p = CHR ''o'' \<or> p = CHR ''O'' then map_option (\<lambda>n. Fin (real n)) (digits 8 t)
          else if p = CHR ''b'' \<or> p = CHR ''B'' then map_option (\<lambda>n. Fin (real n)) (digits 2 t)
          else None
      | _ \<Rightarrow> None)"

definition StringToNumber :: "string \<Rightarrow> jsnum" where
  "StringToNumber s =
     (let t = trim s
      in if t = [] then Fin 0
         else case radix_literal t of
                Some n \<Rightarrow> n
              | None \<Rightarrow>
                  (case (if hd t = CHR ''-'' then map_option js_neg (unsigned_decimal (tl t))
                         else if hd t = CHR ''+'' then unsigned_decimal (tl t)
                         else unsigned_decimal t) of
                     Some n \<Rightarrow> n
                   | None \<Rightarrow> NaN))"

text \<open>
  Converting a value to a string throws on a symbol and on an object whose own data
  property \<^verbatim>\<open>toString\<close> hides the inherited method (no callable \<^verbatim>\<open>toString\<close> or
  \<^verbatim>\<open>valueOf\<close> yields a primitive then).  An array is converted by \<^verbatim>\<open>join\<close>, which
  converts its elements from left to right.  \<open>ToString_exn v\<close> is the exception raised,
  if any.
\<close>

fun ToString_exn :: "jsval \<Rightarrow> exn option" and join_exn :: "jsval list \<Rightarrow> exn option" where
  "ToString_exn (JSym _) = Some (TypeError ''Cannot convert a Symbol value to a string'')"
| "ToString_exn (JObj fs) =
     (if ''toString'' \<in> set (map fst fs)
      then Some (TypeError ''Cannot convert object to primitive value'') else None)"
| "ToString_exn (JArr xs) = join_exn xs"
| "ToString_exn _ = None"
| "join_exn [] = None"
| "join_exn (x # xs) = (case ToString_exn x of Some e \<Rightarrow> Some e | None \<Rightarrow> join_exn xs)"

text \<open>
  \<^verbatim>\<open>Number(v)\<close>.  An object without an own \<^verbatim>\<open>toString\<close> is converted through the text
  \<^verbatim>\<open>[object Object]\<close>.  An array is converted through the text of \<^verbatim>\<open>join\<close>: the empty
  text for the empty array, the text of its element for a one-element array
  (\<^verbatim>\<open>null\<close> and \<^verbatim>\<open>undefined\<close> give the empty text, and a number is read back from its
  own text unchanged), and a text with a comma, which is no numeric literal, for a longer
  array.
\<close>

fun ToNumber :: "jsval \<Rightarrow> exn + jsnum" where
  "ToNumber JUndefined = Inr NaN"
| "ToNumber JNull = Inr (Fin 0)"
| "ToNumber (JBool b) = Inr (Fin (if b then 1 else 0))"
| "ToNumber (JNum n) = Inr n"
| "ToNumber (JStr s) = Inr (StringToNumber s)"
| "ToNumber (JSym _) = Inl (TypeError ''Cannot convert a Symbol value to a number'')"
| "ToNumber (JObj fs) =
     (if ''toString'' \<in> set (map fst fs)
      then Inl (TypeError ''Cannot convert object to primitive value'')
      else Inr (StringToNumber ''[object Object]''))"
| "ToNumber (JArr []) = Inr (StringToNumber [])"
| "ToNumber (JArr [x]) =
     (case x of
        JUndefined \<Rightarrow> Inr (StringToNumber [])
      | JNull \<Rightarrow> Inr (StringToNumber [])
      | JBool b \<Rightarrow> Inr (StringToNumber (if b then ''true'' else ''false''))
      | JNum n \<Rightarrow> Inr n
      | JStr s \<Rightarrow> Inr (StringToNumber s)
      | JSym _ \<Rightarrow> Inl (TypeError ''Cannot convert a Symbol value to a string'')
      | JArr ys \<Rightarrow> ToNumber (JArr ys)
      | JObj fs \<Rightarrow>
          if ''toString'' \<in> set (map fst fs)
          then Inl (TypeError ''Cannot convert object to primitive value'')
          else Inr (StringToNumber ''[object Object]''))"
| "ToNumber (JArr (x # y # zs)) =
     (case join_exn (x # y # zs) of Some e \<Rightarrow> Inl e | None \<Rightarrow> Inr NaN)"

text \<open>
  A string built by a template literal: its literal parts, and the numbers substituted
  into it, each standing for the text the engine prints for that number.
\<close>

datatype piece = Text string | Shown jsnum

type_synonym jstext = "piece list"

section \<open>The geolocation service\<close>

subsection \<open>\<^verbatim>\<open>detectSpoofing\<close>\<close>

record SpoofCheck =
  check :: string
  passed :: bool
  details :: string

record SpoofAssessment =
  passed :: bool
  checks :: "SpoofCheck list"
  riskScore :: jsnum

text \<open>
  The function pushes one check per heuristic onto \<^verbatim>\<open>checks\<close> and adds to
  \<^verbatim>\<open>riskScore\<close>; the two variables are threaded through as \<open>cs\<close> and \<open>rs\<close>.
\<close>

definition detectSpoofing :: "jsval \<Rightarrow> exn + SpoofAssessment" where
  "detectSpoofing deviceInfo =
     (let cs0 = []; rs0 = Fin 0
      in if \<not> ToBoolean deviceInfo
         then Inr \<lparr>SpoofAssessment.passed = True, checks = cs0, riskScore = Fin 0\<rparr>
         else
           case get_prop deviceInfo ''isEmulator'' of
             Inl e \<Rightarrow> Inl e
           | Inr isEmulator \<Rightarrow>
               let (cs1, rs1) =
                     (if ToBoolean isEmulator
                      then (cs0 @ [\<lparr>check = ''isEmulator'', SpoofCheck.passed = False,
                                     details = ''Device reports emulator''\<rparr>],
                            js_add rs0 (Fin (6 / 10)))
                      else (cs0 @ [\<lparr>check = ''isEmulator'', SpoofCheck.passed = True,
                                     details = ''Not an emulator''\<rparr>],
                            rs0))
               in case get_prop deviceInfo ''isMockLocation'' of
                    Inl e \<Rightarrow> Inl e
                  | Inr isMockLocation \<Rightarrow>
                      let (cs2, rs2) =
                            (if ToBoolean isMockLocation
                             then (cs1 @ [\<lparr>check = ''mockLocation'', SpoofCheck.passed = False,
                                            details = ''Mock location enabled''\<rparr>],
                                   js_add rs1 (Fin (6 / 10)))
                             else (cs1 @ [\<lparr>check = ''mockLocation'', SpoofCheck.passed = True,
                                            details = ''Mock location not detected''\<rparr>],
                                   rs1));
                          rs3 = Math_min (Fin 1) rs2
                      in Inr \<lparr>SpoofAssessment.passed = js_le rs3 (Fin (5 / 10)),
                              checks = cs2, riskScore = rs3\<rparr>)"

subsection \<open>Distances\<close>

definition toRadians :: "jsnum \<Rightarrow> jsnum" where
  "toRadians degrees = js_mul degrees (js_div Math_PI (Fin 180))"

text \<open>
  The Haversine formula, on a sphere of radius \<open>R\<close> (in meters).  The model computes it
  exactly.  In doubles the rounded \<open>a\<close> can exceed 1 for nearly antipodal points, for
  example \<open>(82, 0)\<close> and \<open>(-82, 180)\<close>; the function then returns \<open>NaN\<close>, which the
  model does not show.
\<close>

definition calculateDistance :: "jsnum \<Rightarrow> jsnum \<Rightarrow> jsnum \<Rightarrow> jsnum \<Rightarrow> jsnum" where
  "calculateDistance lat1 lon1 lat2 lon2 =
     (let R = Fin 6371000;
          phi1 = toRadians lat1;
          phi2 = toRadians lat2;
          dphi = toRadians (js_sub lat2 lat1);
          dlambda = toRadians (js_sub lon2 lon1);
          a = js_add
                (js_mul (Math_sin (js_div dphi (Fin 2))) (Math_sin (js_div dphi (Fin 2))))
                (js_mul
                  (js_mul (js_mul (Math_cos phi1) (Math_cos phi2)) (Math_sin (js_div dlambda (Fin 2))))
                  (Math_sin (js_div dlambda (Fin 2))));
          c = js_mul (Fin 2) (Math_atan2 (Math_sqrt a) (Math_sqrt (js_sub (Fin 1) a)))
      in js_mul R c)"

record WithinRadius =
  isWithin :: bool
  distance :: jsnum
  radiusMeters :: jsnum

definition isWithinRadius ::
  "jsnum \<Rightarrow> jsnum \<Rightarrow> jsnum \<Rightarrow> jsnum \<Rightarrow> jsnum \<Rightarrow> WithinRadius" where
  "isWithinRadius userLat userLon targetLat targetLon radius =
     (let d = calculateDistance userLat userLon targetLat targetLon
      in \<lparr>isWithin = js_le d radius, distance = Math_round d, radiusMeters = radius\<rparr>)"

subsection \<open>Compass directions\<close>

definition directions :: "string list" where
  "directions = [''N'', ''NE'', ''E'', ''SE'', ''S'', ''SW'', ''W'', ''NW'']"

text \<open>
  \<^verbatim>\<open>xs[i]\<close> for a number \<open>i\<close>: the element when \<open>i\<close> is an integer within the array,
  \<^verbatim>\<open>undefined\<close> (here \<open>None\<close>) otherwise.
\<close>

fun array_index :: "'a list \<Rightarrow> jsnum \<Rightarrow> 'a option" where
  "array_index xs (Fin i) =
     (if of_int \<lfloor>i\<rfloor> = i \<and> 0 \<le> i \<and> nat \<lfloor>i\<rfloor> < length xs then Some (xs ! nat \<lfloor>i\<rfloor>) else None)"
| "array_index xs _ = None"

definition getDirection :: "jsnum \<Rightarrow> string option" where
  "getDirection bearing =
     (let index = js_rem (Math_round (js_div bearing (Fin 45))) (Fin 8)
      in array_index directions index)"

subsection \<open>Validation\<close>

fun isValidCoordinates :: "jsval \<Rightarrow> jsval \<Rightarrow> bool" where
  "isValidCoordinates (JNum lat) (JNum lon) =
     (js_ge lat (Fin (- 90)) \<and> js_le lat (Fin 90) \<and> js_ge lon (Fin (- 180)) \<and> js_le lon (Fin 180))"
| "isValidCoordinates _ _ = False"

subsection \<open>\<^verbatim>\<open>findNearby\<close>\<close>

text \<open>
  A stored location: the array \<^verbatim>\<open>location.coordinates.coordinates\<close> of numbers, and
  the plain object that \<^verbatim>\<open>location.toObject()\<close> returns.  An entry of the result is that
  object with the property \<^verbatim>\<open>distance\<close> set.
\<close>

record 'a Location =
  coordinates :: "jsnum list"
  toObject :: 'a

record 'a Nearby =
  object :: 'a
  distance :: jsnum

text \<open>
  \<^verbatim>\<open>const [lon, lat] = xs\<close>: a missing element is \<^verbatim>\<open>undefined\<close>, which the arithmetic
  of \<open>calculateDistance\<close> converts to \<open>NaN\<close>.
\<close>

definition element :: "jsnum list \<Rightarrow> nat \<Rightarrow> jsnum" where
  "element xs i = (if i < length xs then xs ! i else NaN)"

text \<open>
  \<^verbatim>\<open>Array.prototype.sort\<close> with a comparison function is a stable sort: \<open>x\<close> goes after
  \<open>y\<close> only where the comparison of \<open>x\<close> with \<open>y\<close> is positive (\<open>NaN\<close> counts as 0).
  It is modelled by insertion from the right; where the comparison function is
  consistent, as on the finite distances that \<open>findNearby\<close> sorts, every stable sort
  returns the same array.
\<close>

fun js_insort :: "('a \<Rightarrow> 'a \<Rightarrow> jsnum) \<Rightarrow> 'a \<Rightarrow> 'a list \<Rightarrow> 'a list" where
  "js_insort cmp x [] = [x]"
| "js_insort cmp x (y # ys) =
     (if js_gt (cmp x y) (Fin 0) then y # js_insort cmp x ys else x # y # ys)"

definition Array_sort :: "('a \<Rightarrow> 'a \<Rightarrow> jsnum) \<Rightarrow> 'a list \<Rightarrow> 'a list" where
  "Array_sort cmp xs = foldr (js_insort cmp) xs []"

definition findNearby :: "jsnum \<Rightarrow> jsnum \<Rightarrow> 'a Location list \<Rightarrow> jsnum \<Rightarrow> 'a Nearby list" where
  "findNearby userLat userLon locations maxDistanceMeters =
     Array_sort (\<lambda>a b. js_sub (Nearby.distance a) (Nearby.distance b))
       (filter (\<lambda>loc. js_le (Nearby.distance loc) maxDistanceMeters)
         (map (\<lambda>location.
                 let lon = element (coordinates location) 0;
                     lat = element (coordinates location) 1;
                     d = calculateDistance userLat userLon lat lon
                 in \<lparr>object = toObject location, Nearby.distance = d\<rparr>)
              locations))"

subsection \<open>\<^verbatim>\<open>verifyLocation\<close>\<close>

record VerificationResult =
  passed :: bool
  withinRadius :: bool
  distanceMeters :: jsval
  allowedRadius :: jsval
  message :: jstext

text \<open>
  The body of the \<^verbatim>\<open>try\<close> block: \<open>Inl e\<close> when it throws \<open>e\<close>.  The only operation
  of the body that can throw is the conversion \<^verbatim>\<open>Number(v)\<close>.
\<close>

definition verifyLocation_try :: "jsval \<Rightarrow> jsval \<Rightarrow> exn + VerificationResult" where
  "verifyLocation_try submittedLocation targetLocation =
     (let userLat = opt_get_prop submittedLocation ''latitude'';
          userLon = opt_get_prop submittedLocation ''longitude''
      in case (userLat, userLon) of
           (JNum lat, JNum lon) \<Rightarrow>
             (let coords = opt_get_prop targetLocation ''coordinates''
              in case ToNumber (js_or (opt_get_prop targetLocation ''radiusMeters'') (JNum (Fin 50))) of
                   Inl e \<Rightarrow> Inl e
                 | Inr n \<Rightarrow>
                     (let radius = Math_max (Fin 10) n;
                          not_configured =
                            Inr \<lparr>VerificationResult.passed = False, withinRadius = False,
                                 distanceMeters = JNull, allowedRadius = JNum radius,
                                 message = [Text ''Quest target location not configured'']\<rparr>
                      in case coords of
                           JArr cs \<Rightarrow>
                             if length cs \<noteq> 2 then not_configured
                             else
                               (case ToNumber (cs ! 0) of
                                  Inl e \<Rightarrow> Inl e
                                | Inr targetLon \<Rightarrow>
                               (case ToNumber (cs ! 1) of
                                  Inl e \<Rightarrow> Inl e
                                | Inr targetLat \<Rightarrow>
                                    if \<not> isValidCoordinates userLat userLon
                                       \<or> \<not> isValidCoordinates (JNum targetLat) (JNum targetLon)
                                    then Inr \<lparr>VerificationResult.passed = False, withinRadius = False,
                                              distanceMeters = JNull, allowedRadius = JNum radius,
                                              message = [Text ''Invalid coordinates'']\<rparr>
                                    else
                                      (let d = Math_round (calculateDistance lat lon targetLat targetLon);
                                           ok = js_le d radius
                                       in Inr \<lparr>VerificationResult.passed = ok, withinRadius = ok,
                                                distanceMeters = JNum d, allowedRadius = JNum radius,
                                                message =
                                                  (if ok
                                                   then [Text ([CHR 0xE2, CHR 0x9C, CHR 0x85]
                                                               @ '' Location verified (''),
                                                         Shown d, Text ''m away)'']
                                                   else [Text ([CHR 0xE2, CHR 0x9D, CHR 0x8C]
                                                               @ '' Location mismatch (''),
                                                         Shown d, Text ''m away, allowed '',
                                                         Shown radius, Text ''m)''])\<rparr>)))
                         | _ \<Rightarrow> not_configured))
         | _ \<Rightarrow>
             Inr \<lparr>VerificationResult.passed = False, withinRadius = False,
                  distanceMeters = JNull,
                  allowedRadius = js_or (opt_get_prop targetLocation ''radiusMeters'') JNull,
                  message = [Text ''Location data not provided'']\<rparr>)"

text \<open>
  The \<^verbatim>\<open>catch\<close> block, for the exception \<open>e\<close>: it has no operation that throws.
\<close>

definition verifyLocation_catch :: "jsval \<Rightarrow> exn \<Rightarrow> VerificationResult" where
  "verifyLocation_catch targetLocation e =
     \<lparr>VerificationResult.passed = False, withinRadius = False,
      distanceMeters = JNull,
      allowedRadius = js_or (opt_get_prop targetLocation ''radiusMeters'') JNull,
      message = [Text (if exn_message e \<noteq> [] then exn_message e
                       else ''Location verification failed'')]\<rparr>"

text \<open>The whole function: \<open>Inr\<close> the value returned, \<open>Inl\<close> an exception that escapes.\<close>

definition verifyLocation :: "jsval \<Rightarrow> jsval \<Rightarrow> exn + VerificationResult" where
  "verifyLocation submittedLocation targetLocation =
     (case verifyLocation_try submittedLocation targetLocation of
        Inr result \<Rightarrow> Inr result
      | Inl e \<Rightarrow> Inr (verifyLocation_catch targetLocation e))"

section \<open>Notions used to state the properties\<close>

text \<open>Whether \<^verbatim>\<open>deviceInfo.k\<close> is truthy, that is, whether the heuristic \<open>k\<close> fires.\<close>

definition flag_set :: "jsval \<Rightarrow> string \<Rightarrow> bool" where
  "flag_set deviceInfo k = (case get_prop deviceInfo k of Inr v \<Rightarrow> ToBoolean v | Inl _ \<Rightarrow> False)"

text \<open>
  The allowed radius as the specification words it, \<^verbatim>\<open>max(10, numeric(radiusMeters) or
  50)\<close>: the value is converted first, and 50 replaces a falsy result (0 or \<open>NaN\<close>).
\<close>

definition spec_allowedRadius :: "jsval \<Rightarrow> exn + jsnum" where
  "spec_allowedRadius r =
     (case ToNumber r of
        Inl e \<Rightarrow> Inl e
      | Inr n \<Rightarrow> Inr (Math_max (Fin 10) (if ToBoolean (JNum n) then n else Fin 50)))"

text \<open>The real value of a finite number.\<close>

fun fin_value :: "jsnum \<Rightarrow> real" where
  "fin_value (Fin x) = x"
| "fin_value _ = 0"

text \<open>
  A candidate of \<open>findNearby\<close> with its distance from the user point attached: the value
  that the \<^verbatim>\<open>map\<close> step computes for it.
\<close>

definition with_distance :: "jsnum \<Rightarrow> jsnum \<Rightarrow> 'a Location \<Rightarrow> 'a Nearby" where
  "with_distance userLat userLon location =
     \<lparr>object = toObject location,
      Nearby.distance =
        calculateDistance userLat userLon
          (element (coordinates location) 1) (element (coordinates location) 0)\<rparr>"

section \<open>Bounds on \<open>\<pi>\<close>\<close>

text \<open>
  The bounds \<open>3.1 < \<pi> < 3.15\<close>, from the value of the sine at \<open>\<pi>/6\<close> and polynomial
  bounds on sine and cosine, each obtained from the previous one by monotonicity.
\<close>

lemma cos_ge_quadratic:
  fixes x :: real
  assumes "0 \<le> x"
  shows "1 - x\<^sup>2 / 2 \<le> cos x"
proof -
  let ?f = "\<lambda>x. cos x + x\<^sup>2 / 2"
  have "\<And>u. \<lbrakk>0 \<le> u; u \<le> x\<rbrakk> \<Longrightarrow> \<exists>y. (?f has_real_derivative y) (at u) \<and> 0 \<le> y"
  proof -
    fix u :: real assume "0 \<le> u" "u \<le> x"
    have "(?f has_real_derivative (u - sin u)) (at u)"
      by (auto intro!: derivative_eq_intros simp: field_simps)
    moreover have "0 \<le> u - sin u" using sin_x_le_x[OF \<open>0 \<le> u\<close>] by simp
    ultimately show "\<exists>y. (?f has_real_derivative y) (at u) \<and> 0 \<le> y" by blast
  qed
  then have "?f 0 \<le> ?f x" by (rule DERIV_nonneg_imp_nondecreasing [OF assms])
  then show ?thesis by simp
qed

lemma sin_ge_cubic:
  fixes x :: real
  assumes "0 \<le> x"
  shows "x - x ^ 3 / 6 \<le> sin x"
proof -
  let ?f = "\<lambda>x. sin x - x + x ^ 3 / 6"
  have "\<And>u. \<lbrakk>0 \<le> u; u \<le> x\<rbrakk> \<Longrightarrow> \<exists>y. (?f has_real_derivative y) (at u) \<and> 0 \<le> y"
  proof -
    fix u :: real assume "0 \<le> u" "u \<le> x"
    have "(?f has_real_derivative (cos u - 1 + u\<^sup>2 / 2)) (at u)"
      by (auto intro!: derivative_eq_intros simp: field_simps power2_eq_square)
    moreover have "0 \<le> cos u - 1 + u\<^sup>2 / 2" using cos_ge_quadratic[OF \<open>0 \<le> u\<close>] by simp
    ultimately show "\<exists>y. (?f has_real_derivative y) (at u) \<and> 0 \<le> y" by blast
  qed
  then have "?f 0 \<le> ?f x" by (rule DERIV_nonneg_imp_nondecreasing [OF assms])
  then show ?thesis by simp
qed

lemma cos_le_quartic:
  fixes x :: real
  assumes "0 \<le> x"
  shows "cos x \<le> 1 - x\<^sup>2 / 2 + x ^ 4 / 24"
proof -
  let ?f = "\<lambda>x. x ^ 4 / 24 - x\<^sup>2 / 2 - cos x"
  have "\<And>u. \<lbrakk>0 \<le> u; u \<le> x\<rbrakk> \<Longrightarrow> \<exists>y. (?f has_real_derivative y) (at u) \<and> 0 \<le> y"
  proof -
    fix u :: real assume "0 \<le> u" "u \<le> x"
    have "(?f has_real_derivative (u ^ 3 / 6 - u + sin u)) (at u)"
      by (auto intro!: derivative_eq_intros simp: field_simps power3_eq_cube)
    moreover have "0 \<le> u ^ 3 / 6 - u + sin u" using sin_ge_cubic[OF \<open>0 \<le> u\<close>] by simp
    ultimately show "\<exists>y. (?f has_real_derivative y) (at u) \<and> 0 \<le> y" by blast
  qed
  then have "?f 0 \<le> ?f x" by (rule DERIV_nonneg_imp_nondecreasing [OF assms])
  then show ?thesis by simp
qed

lemma sin_le_quintic:
  fixes x :: real
  assumes "0 \<le> x"
  shows "sin x \<le> x - x ^ 3 / 6 + x ^ 5 / 120"
proof -
  let ?f = "\<lambda>x. x - x ^ 3 / 6 + x ^ 5 / 120 - sin x"
  have "\<And>u. \<lbrakk>0 \<le> u; u \<le> x\<rbrakk> \<Longrightarrow> \<exists>y. (?f has_real_derivative y) (at u) \<and> 0 \<le> y"
  proof -
    fix u :: real assume "0 \<le> u" "u \<le> x"
    have "(?f has_real_derivative (1 - u\<^sup>2 / 2 + u ^ 4 / 24 - cos u)) (at u)"
      by (auto intro!: derivative_eq_intros simp: field_simps power2_eq_square)
    moreover have "0 \<le> 1 - u\<^sup>2 / 2 + u ^ 4 / 24 - cos u" using cos_le_quartic[OF \<open>0 \<le> u\<close>] by simp
    ultimately show "\<exists>y. (?f has_real_derivative y) (at u) \<and> 0 \<le> y" by blast
  qed
  then have "?f 0 \<le> ?f x" by (rule DERIV_nonneg_imp_nondecreasing [OF assms])
  then show ?thesis by simp
qed

lemma cube_diff:
  fixes y c :: real
  shows "y ^ 3 - c ^ 3 = (y - c) * (y * y + c * y + c * c)"
  by (simp add: power3_eq_cube algebra_simps)

lemma pi_upper: "pi < 315 / 100"
proof (rule ccontr)
  assume "\<not> pi < 315 / 100"
  define y where "y = pi / 6"
  have y: "21 / 40 \<le> y" "y < 2 / 3" "0 \<le> y"
    using \<open>\<not> pi < 315 / 100\<close> pi_less_4 by (simp_all add: y_def)
  have "sin y = 1 / 2" unfolding y_def by (rule sin_30)
  then have s: "y - y ^ 3 / 6 \<le> 1 / 2" using sin_ge_cubic[OF y(3)] by simp
  have "y * y \<le> (2 / 3) * (2 / 3)" using y by (intro mult_mono) auto
  then have q: "y * y + 21 / 40 * y + (21 / 40) * (21 / 40) \<le> 6" using y by linarith
  have "y ^ 3 - (21 / 40) ^ 3 = (y - 21 / 40) * (y * y + 21 / 40 * y + (21 / 40) * (21 / 40))"
    by (rule cube_diff)
  also have "\<dots> \<le> (y - 21 / 40) * 6" using q y by (intro mult_left_mono) auto
  finally have e: "y ^ 3 - (21 / 40) ^ 3 \<le> (y - 21 / 40) * 6" .
  have n: "(21 / 40 :: real) ^ 3 = 9261 / 64000" by (simp add: power3_eq_cube)
  have e': "y ^ 3 \<le> 9261 / 64000 + (6 * y - 63 / 20)" using e unfolding n by simp
  from e' s show False by simp
qed

lemma pi_lower: "31 / 10 < pi"
proof (rule ccontr)
  assume "\<not> 31 / 10 < pi"
  define y where "y = pi / 6"
  have y0: "0 \<le> y" by (simp add: y_def)
  have h: "sin y = 1 / 2" unfolding y_def by (rule sin_30)
  have y: "1 / 2 \<le> y" "y \<le> 31 / 60"
    using sin_x_le_x[OF y0] h \<open>\<not> 31 / 10 < pi\<close> by (simp_all add: y_def)
  have s: "1 / 2 \<le> y - y ^ 3 / 6 + y ^ 5 / 120" using sin_le_quintic[OF y0] h by simp
  have "(1 / 2) ^ 3 \<le> y ^ 3" using y by (intro power_mono) auto
  moreover have "(1 / 2 :: real) ^ 3 = 1 / 8" by (simp add: power3_eq_cube)
  ultimately have c: "1 / 8 \<le> y ^ 3" by simp
  have "y ^ 2 \<le> 1" using y y0 by (intro power_le_one) auto
  moreover have "0 \<le> y ^ 3" using y0 by simp
  ultimately have a: "y ^ 3 * y ^ 2 \<le> y ^ 3 * 1" by (rule mult_left_mono)
  have b: "y ^ 5 = y ^ 3 * y ^ 2" using power_add[of y 3 2] by simp
  have "y ^ 5 \<le> y ^ 3" unfolding b using a by (simp only: mult_1_right)
  with s c y show False by simp
qed


section \<open>Distances in the exact model\<close>

lemma js_sub_Fin: "js_sub (Fin x) (Fin y) = Fin (x - y)"
  by (simp add: js_sub_def)

lemma toRadians_Fin: "toRadians (Fin x) = Fin (x * (pi / 180))"
  by (simp add: toRadians_def Math_PI_def)

lemma calculateDistance_same: "calculateDistance (Fin lat) (Fin lon) (Fin lat) (Fin lon) = Fin 0"
  by (simp add: calculateDistance_def toRadians_def Math_PI_def js_sub_def atan2_def Let_def)

lemma atan2_sin_cos:
  assumes "0 \<le> a" "a < pi / 2"
  shows "atan2 (sin a) (cos a) = a"
proof -
  have c: "0 < cos a" using assms by (intro cos_gt_zero_pi) auto
  have "arctan (tan a) = a" using assms by (intro arctan_tan) auto
  then show ?thesis using c by (simp add: atan2_def tan_def)
qed

lemma distance_along_equator:
  assumes "0 \<le> x" "x < 180"
  shows "calculateDistance (Fin 0) (Fin 0) (Fin 0) (Fin x) = Fin (6371000 * (x * (pi / 180)))"
proof -
  define a where "a = x * (pi / 180) / 2"
  have a: "0 \<le> a" "a < pi / 2" using assms by (simp_all add: a_def)
  have q: "sin a * sin a \<le> 1"
    using sin_cos_squared_add3[of a] zero_le_square[of "cos a"] by linarith
  have s: "sqrt (sin a * sin a) = sin a"
    using sin_ge_zero[of a] a by simp
  have "1 - sin a * sin a = cos a * cos a"
    using sin_cos_squared_add3[of a] by (simp add: algebra_simps)
  moreover have "0 \<le> cos a" using a by (intro cos_ge_zero) auto
  ultimately have c: "sqrt (1 - sin a * sin a) = cos a" by simp
  have "calculateDistance (Fin 0) (Fin 0) (Fin 0) (Fin x) =
          js_mul (Fin 6371000)
            (js_mul (Fin 2)
              (Math_atan2 (Math_sqrt (Fin (sin a * sin a)))
                          (Math_sqrt (js_sub (Fin 1) (Fin (sin a * sin a))))))"
    by (simp add: calculateDistance_def toRadians_Fin js_sub_Fin a_def Let_def)
  also have "\<dots> = Fin (6371000 * (2 * atan2 (sqrt (sin a * sin a)) (sqrt (1 - sin a * sin a))))"
    using q by (simp add: js_sub_Fin)
  also have "\<dots> = Fin (6371000 * (2 * a))"
    unfolding s c atan2_sin_cos[OF a] ..
  finally show ?thesis by (simp add: a_def)
qed

lemma distance_example:
  "\<exists>d. calculateDistance (Fin 0) (Fin 0) (Fin 0) (Fin (918 / 10000000)) = Fin d \<and> 10 < d \<and> d < 21 / 2"
proof -
  have "calculateDistance (Fin 0) (Fin 0) (Fin 0) (Fin (918 / 10000000))
        = Fin (6371000 * (918 / 10000000 * (pi / 180)))"
    by (rule distance_along_equator) simp_all
  moreover have "10 < 6371000 * (918 / 10000000 * (pi / 180))"
    using pi_lower by simp
  moreover have "6371000 * (918 / 10000000 * (pi / 180)) < 21 / 2"
    using pi_upper by simp
  ultimately show ?thesis by blast
qed

lemma distance_example_11:
  "\<exists>d. calculateDistance (Fin 0) (Fin 0) (Fin 0) (Fin (989 / 10000000)) = Fin d \<and>
       21 / 2 < d \<and> d < 23 / 2"
proof -
  have "calculateDistance (Fin 0) (Fin 0) (Fin 0) (Fin (989 / 10000000))
        = Fin (6371000 * (989 / 10000000 * (pi / 180)))"
    by (rule distance_along_equator) simp_all
  moreover have "21 / 2 < 6371000 * (989 / 10000000 * (pi / 180))"
    using pi_lower by simp
  moreover have "6371000 * (989 / 10000000 * (pi / 180)) < 23 / 2"
    using pi_upper by simp
  ultimately show ?thesis by blast
qed

lemma round_10: "10 < d \<Longrightarrow> d < 21 / 2 \<Longrightarrow> Math_round (Fin d) = Fin 10"
proof -
  assume "10 < d" "d < 21 / 2"
  then have "\<lfloor>d + 1 / 2\<rfloor> = 10" by linarith
  then show ?thesis by simp
qed

lemma round_11: "21 / 2 < d \<Longrightarrow> d < 23 / 2 \<Longrightarrow> Math_round (Fin d) = Fin 11"
proof -
  assume "21 / 2 < d" "d < 23 / 2"
  then have "\<lfloor>d + 1 / 2\<rfloor> = 11" by linarith
  then show ?thesis by simp
qed

text \<open>
  Where the quantity \<open>a\<close> computed by \<open>calculateDistance\<close> exceeds 1, the square root
  of \<open>1 - a\<close> is \<open>NaN\<close> and so is the distance.  In exact arithmetic \<open>a\<close> never exceeds 1;
  in doubles it does for some nearly antipodal points.
\<close>

lemma distance_NaN_beyond_one:
  assumes "1 < a"
  shows "js_mul (Fin 6371000)
           (js_mul (Fin 2)
             (Math_atan2 (Math_sqrt (Fin a)) (Math_sqrt (js_sub (Fin 1) (Fin a))))) = NaN"
  using assms by (simp add: js_sub_Fin)


section \<open>Properties of \<open>detectSpoofing\<close>\<close>

lemma get_prop_truthy: "ToBoolean d \<Longrightarrow> \<exists>v. get_prop d k = Inr v"
  by (cases d) auto

text \<open>
  Claim C4 (amended).  For every supplied (truthy) device signal, \<open>detectSpoofing\<close> returns
  and \<open>passed\<close> equals \<open>riskScore \<le> 0.5\<close>.  As each heuristic that fires adds 0.6, the
  assessment passes exactly when neither the emulator flag nor the mock-location flag
  fires.
\<close>

theorem detectSpoofing_passed:
  assumes "ToBoolean d"
  shows "\<exists>r. detectSpoofing d = Inr r \<and>
           SpoofAssessment.passed r = js_le (riskScore r) (Fin (5 / 10)) \<and>
           (SpoofAssessment.passed r \<longleftrightarrow>
              \<not> flag_set d ''isEmulator'' \<and> \<not> flag_set d ''isMockLocation'')"
proof -
  obtain e where e: "get_prop d ''isEmulator'' = Inr e"
    using get_prop_truthy[OF assms] by blast
  obtain m where m: "get_prop d ''isMockLocation'' = Inr m"
    using get_prop_truthy[OF assms] by blast
  show ?thesis
    using assms e m
    by (cases "ToBoolean e"; cases "ToBoolean m") (simp_all add: detectSpoofing_def flag_set_def)
qed

theorem detectSpoofing_passed_witness:
  "ToBoolean (JObj [(''isEmulator'', JBool False)]) \<and>
   (\<exists>r. detectSpoofing (JObj [(''isEmulator'', JBool False)]) = Inr r \<and> SpoofAssessment.passed r)"
  using detectSpoofing_passed[of "JObj [(''isEmulator'', JBool False)]"]
  by (auto simp add: flag_set_def)

text \<open>
  Claim C4 as stated fails: with the emulator flag alone, one heuristic fires, the risk
  score is 0.6 and the assessment does not pass.
\<close>

theorem detectSpoofing_one_heuristic_fails:
  "detectSpoofing (JObj [(''isEmulator'', JBool True), (''isMockLocation'', JBool False)]) =
     Inr \<lparr>SpoofAssessment.passed = False,
          checks = [\<lparr>check = ''isEmulator'', SpoofCheck.passed = False,
                      details = ''Device reports emulator''\<rparr>,
                    \<lparr>check = ''mockLocation'', SpoofCheck.passed = True,
                      details = ''Mock location not detected''\<rparr>],
          riskScore = Fin (6 / 10)\<rparr>"
  by (simp add: detectSpoofing_def)

text \<open>
  Claim C5.  Without a signal (any falsy argument, \<^verbatim>\<open>undefined\<close> in particular)
  \<open>detectSpoofing\<close> returns exactly \<^verbatim>\<open>{passed: true, checks: [], riskScore: 0}\<close>.  With a
  signal the risk score is the minimum of 1 and 0.6 per flag that fires among
  \<^verbatim>\<open>isEmulator\<close> and \<^verbatim>\<open>isMockLocation\<close>; it never exceeds 1; with both flags it is 1 and
  the assessment does not pass.
\<close>

theorem detectSpoofing_riskScore:
  "detectSpoofing JUndefined =
     Inr \<lparr>SpoofAssessment.passed = True, checks = [], riskScore = Fin 0\<rparr> \<and>
   (\<not> ToBoolean d \<longrightarrow>
      detectSpoofing d = Inr \<lparr>SpoofAssessment.passed = True, checks = [], riskScore = Fin 0\<rparr>) \<and>
   (ToBoolean d \<longrightarrow>
      (\<exists>r. detectSpoofing d = Inr r \<and>
           riskScore r =
             Math_min (Fin 1)
               (Fin (6 / 10 * real (length (filter (flag_set d) [''isEmulator'', ''isMockLocation''])))) \<and>
           js_le (riskScore r) (Fin 1) \<and>
           (flag_set d ''isEmulator'' \<and> flag_set d ''isMockLocation'' \<longrightarrow>
              riskScore r = Fin 1 \<and> \<not> SpoofAssessment.passed r)))"
proof (intro conjI impI)
  show "detectSpoofing JUndefined =
          Inr \<lparr>SpoofAssessment.passed = True, checks = [], riskScore = Fin 0\<rparr>"
    by (simp add: detectSpoofing_def)
next
  assume "\<not> ToBoolean d"
  then show "detectSpoofing d =
               Inr \<lparr>SpoofAssessment.passed = True, checks = [], riskScore = Fin 0\<rparr>"
    by (simp add: detectSpoofing_def)
next
  assume t: "ToBoolean d"
  obtain e where e: "get_prop d ''isEmulator'' = Inr e"
    using get_prop_truthy[OF t] by blast
  obtain m where m: "get_prop d ''isMockLocation'' = Inr m"
    using get_prop_truthy[OF t] by blast
  show "\<exists>r. detectSpoofing d = Inr r \<and>
           riskScore r =
             Math_min (Fin 1)
               (Fin (6 / 10 * real (length (filter (flag_set d) [''isEmulator'', ''isMockLocation''])))) \<and>
           js_le (riskScore r) (Fin 1) \<and>
           (flag_set d ''isEmulator'' \<and> flag_set d ''isMockLocation'' \<longrightarrow>
              riskScore r = Fin 1 \<and> \<not> SpoofAssessment.passed r)"
    using t e m
    by (cases "ToBoolean e"; cases "ToBoolean m") (simp_all add: detectSpoofing_def flag_set_def)
qed

theorem detectSpoofing_riskScore_witness:
  "ToBoolean (JObj [(''isEmulator'', JBool True), (''isMockLocation'', JBool True)]) \<and>
   flag_set (JObj [(''isEmulator'', JBool True), (''isMockLocation'', JBool True)]) ''isEmulator'' \<and>
   flag_set (JObj [(''isEmulator'', JBool True), (''isMockLocation'', JBool True)]) ''isMockLocation'' \<and>
   (\<exists>r. detectSpoofing (JObj [(''isEmulator'', JBool True), (''isMockLocation'', JBool True)]) = Inr r \<and>
        riskScore r = Fin 1 \<and> \<not> SpoofAssessment.passed r) \<and>
   \<not> ToBoolean JNull \<and>
   detectSpoofing JNull = Inr \<lparr>SpoofAssessment.passed = True, checks = [], riskScore = Fin 0\<rparr>"
  using detectSpoofing_riskScore[of "JObj [(''isEmulator'', JBool True), (''isMockLocation'', JBool True)]"]
        detectSpoofing_riskScore[of JNull]
  by (auto simp add: flag_set_def)

section \<open>Properties of \<open>getDirection\<close>\<close>

lemma js_rem_8:
  assumes "0 \<le> k"
  shows "js_rem (Fin (of_int k)) (Fin 8) = Fin (of_int (k mod 8))"
proof -
  have "(of_int k :: real) / 8 = of_int k / of_int 8" by simp
  then have f: "\<lfloor>(of_int k :: real) / 8\<rfloor> = k div 8"
    by (simp only: floor_divide_of_int_eq)
  have "trunc (of_int k / 8) = k div 8"
    using assms f by (simp add: trunc_def)
  moreover have "(of_int k :: real) - 8 * of_int (k div 8) = of_int (k mod 8)"
    by (simp add: minus_mult_div_eq_mod [symmetric] del: minus_mult_div_eq_mod)
  ultimately show ?thesis by simp
qed

lemma array_index_directions:
  assumes "0 \<le> j" "j < 8"
  shows "array_index directions (Fin (of_int j)) = Some (directions ! nat j)"
  using assms by (simp add: directions_def)

lemma directions_nth_mem: "n < 8 \<Longrightarrow> directions ! n \<in> set directions"
  by (rule nth_mem) (simp add: directions_def)

lemma getDirection_index:
  assumes "0 \<le> b"
  shows "getDirection (Fin b) = Some (directions ! (nat \<lfloor>b / 45 + 1 / 2\<rfloor> mod 8))"
proof -
  define k where "k = \<lfloor>b / 45 + 1 / 2\<rfloor>"
  have k0: "0 \<le> k" using assms by (simp add: k_def)
  have m: "0 \<le> k mod 8" "k mod 8 < 8" by simp_all
  have "getDirection (Fin b) = array_index directions (js_rem (Fin (of_int k)) (Fin 8))"
    by (simp add: getDirection_def k_def)
  also have "\<dots> = Some (directions ! nat (k mod 8))"
    unfolding js_rem_8[OF k0] by (rule array_index_directions[OF m])
  also have "nat (k mod 8) = nat k mod 8" using k0 by (simp add: nat_mod_distrib)
  finally show ?thesis unfolding k_def .
qed

text \<open>
  Claim C9.  For every bearing in \<open>[0, 360]\<close>, \<open>getDirection\<close> returns the compass point
  of index \<open>round(bearing / 45) mod 8\<close>, which is one of the 8 strings and whose angle
  (a multiple of 45 degrees) is nearest to the bearing, at most 22.5 degrees away;
  the bearings 0, 90 and 360 give N, E and N.
\<close>

theorem getDirection_compass:
  assumes "0 \<le> b" "b \<le> 360"
  shows "getDirection (Fin b) = Some (directions ! (nat \<lfloor>b / 45 + 1 / 2\<rfloor> mod 8)) \<and>
         directions ! (nat \<lfloor>b / 45 + 1 / 2\<rfloor> mod 8) \<in> set directions \<and>
         \<bar>b - 45 * of_int \<lfloor>b / 45 + 1 / 2\<rfloor>\<bar> \<le> 45 / 2 \<and>
         getDirection (Fin 0) = Some ''N'' \<and>
         getDirection (Fin 90) = Some ''E'' \<and>
         getDirection (Fin 360) = Some ''N''"
proof -
  have 1: "getDirection (Fin b) = Some (directions ! (nat \<lfloor>b / 45 + 1 / 2\<rfloor> mod 8))"
    by (rule getDirection_index[OF assms(1)])
  have 2: "directions ! (nat \<lfloor>b / 45 + 1 / 2\<rfloor> mod 8) \<in> set directions"
    by (rule directions_nth_mem) simp
  have "of_int \<lfloor>b / 45 + 1 / 2\<rfloor> \<le> b / 45 + 1 / 2"
       "b / 45 + 1 / 2 < of_int \<lfloor>b / 45 + 1 / 2\<rfloor> + 1"
    by linarith+
  then have 3: "\<bar>b - 45 * of_int \<lfloor>b / 45 + 1 / 2\<rfloor>\<bar> \<le> 45 / 2" by linarith
  have f: "\<lfloor>1 / 2 :: real\<rfloor> = 0" "\<lfloor>90 / 45 + 1 / 2 :: real\<rfloor> = 2" "\<lfloor>360 / 45 + 1 / 2 :: real\<rfloor> = 8"
    by linarith+
  have 4: "getDirection (Fin 0) = Some ''N''"
    using getDirection_index[of 0] by (simp add: f directions_def)
  have 5: "getDirection (Fin 90) = Some ''E''"
    using getDirection_index[of 90] by (simp add: f directions_def)
  have 6: "getDirection (Fin 360) = Some ''N''"
    using getDirection_index[of 360] by (simp add: f directions_def)
  show ?thesis using 1 2 3 4 5 6 by blast
qed

theorem getDirection_compass_witness:
  "(0::real) \<le> 200 \<and> (200::real) \<le> 360 \<and> getDirection (Fin 200) = Some ''S''"
proof -
  have f: "\<lfloor>200 / 45 + 1 / 2 :: real\<rfloor> = 4" by linarith
  show ?thesis using getDirection_compass[of 200] by (simp add: f directions_def)
qed


section \<open>The paths through \<open>verifyLocation\<close>\<close>

lemma try_missing:
  assumes "\<not> (is_number (opt_get_prop s ''latitude'') \<and> is_number (opt_get_prop s ''longitude''))"
  shows "verifyLocation_try s t =
           Inr \<lparr>VerificationResult.passed = False, withinRadius = False, distanceMeters = JNull,
                allowedRadius = js_or (opt_get_prop t ''radiusMeters'') JNull,
                message = [Text ''Location data not provided'']\<rparr>"
  using assms unfolding verifyLocation_try_def Let_def
  by (cases "opt_get_prop s ''latitude''"; cases "opt_get_prop s ''longitude''") simp_all

lemma try_radius_fault:
  assumes "opt_get_prop s ''latitude'' = JNum lat" "opt_get_prop s ''longitude'' = JNum lon"
    and "ToNumber (js_or (opt_get_prop t ''radiusMeters'') (JNum (Fin 50))) = Inl e"
  shows "verifyLocation_try s t = Inl e"
  using assms unfolding verifyLocation_try_def Let_def by simp

lemma two_elements: "length cs = 2 \<Longrightarrow> \<exists>a b. cs = [a, b]"
  by (cases cs; cases "tl cs") auto

lemma try_not_configured:
  assumes "opt_get_prop s ''latitude'' = JNum lat" "opt_get_prop s ''longitude'' = JNum lon"
    and "ToNumber (js_or (opt_get_prop t ''radiusMeters'') (JNum (Fin 50))) = Inr n"
    and "\<And>c0 c1. opt_get_prop t ''coordinates'' \<noteq> JArr [c0, c1]"
  shows "verifyLocation_try s t =
           Inr \<lparr>VerificationResult.passed = False, withinRadius = False, distanceMeters = JNull,
                allowedRadius = JNum (Math_max (Fin 10) n),
                message = [Text ''Quest target location not configured'']\<rparr>"
proof (cases "opt_get_prop t ''coordinates''")
  case (JArr cs)
  then have "length cs \<noteq> 2" using assms(4) two_elements[of cs] by auto
  then show ?thesis using assms(1-3) JArr unfolding verifyLocation_try_def Let_def by simp
qed (use assms(1-3) in \<open>simp_all add: verifyLocation_try_def Let_def\<close>)

lemma try_lon_fault:
  assumes "opt_get_prop s ''latitude'' = JNum lat" "opt_get_prop s ''longitude'' = JNum lon"
    and "ToNumber (js_or (opt_get_prop t ''radiusMeters'') (JNum (Fin 50))) = Inr n"
    and "opt_get_prop t ''coordinates'' = JArr [c0, c1]"
    and "ToNumber c0 = Inl e"
  shows "verifyLocation_try s t = Inl e"
  using assms unfolding verifyLocation_try_def Let_def by simp

lemma try_lat_fault:
  assumes "opt_get_prop s ''latitude'' = JNum lat" "opt_get_prop s ''longitude'' = JNum lon"
    and "ToNumber (js_or (opt_get_prop t ''radiusMeters'') (JNum (Fin 50))) = Inr n"
    and "opt_get_prop t ''coordinates'' = JArr [c0, c1]"
    and "ToNumber c0 = Inr targetLon" "ToNumber c1 = Inl e"
  shows "verifyLocation_try s t = Inl e"
  using assms unfolding verifyLocation_try_def Let_def by simp

lemma try_invalid:
  assumes "opt_get_prop s ''latitude'' = JNum lat" "opt_get_prop s ''longitude'' = JNum lon"
    and "ToNumber (js_or (opt_get_prop t ''radiusMeters'') (JNum (Fin 50))) = Inr n"
    and "opt_get_prop t ''coordinates'' = JArr [c0, c1]"
    and "ToNumber c0 = Inr targetLon" "ToNumber c1 = Inr targetLat"
    and "\<not> (isValidCoordinates (JNum lat) (JNum lon) \<and> isValidCoordinates (JNum targetLat) (JNum targetLon))"
  shows "verifyLocation_try s t =
           Inr \<lparr>VerificationResult.passed = False, withinRadius = False, distanceMeters = JNull,
                allowedRadius = JNum (Math_max (Fin 10) n),
                message = [Text ''Invalid coordinates'']\<rparr>"
  using assms unfolding verifyLocation_try_def Let_def by auto

lemma try_distance:
  assumes "opt_get_prop s ''latitude'' = JNum lat" "opt_get_prop s ''longitude'' = JNum lon"
    and "ToNumber (js_or (opt_get_prop t ''radiusMeters'') (JNum (Fin 50))) = Inr n"
    and "opt_get_prop t ''coordinates'' = JArr [c0, c1]"
    and "ToNumber c0 = Inr targetLon" "ToNumber c1 = Inr targetLat"
    and "isValidCoordinates (JNum lat) (JNum lon)" "isValidCoordinates (JNum targetLat) (JNum targetLon)"
  shows "verifyLocation_try s t =
           Inr \<lparr>VerificationResult.passed =
                  js_le (Math_round (calculateDistance lat lon targetLat targetLon)) (Math_max (Fin 10) n),
                withinRadius =
                  js_le (Math_round (calculateDistance lat lon targetLat targetLon)) (Math_max (Fin 10) n),
                distanceMeters = JNum (Math_round (calculateDistance lat lon targetLat targetLon)),
                allowedRadius = JNum (Math_max (Fin 10) n),
                message =
                  (if js_le (Math_round (calculateDistance lat lon targetLat targetLon)) (Math_max (Fin 10) n)
                   then [Text ([CHR 0xE2, CHR 0x9C, CHR 0x85] @ '' Location verified (''),
                         Shown (Math_round (calculateDistance lat lon targetLat targetLon)),
                         Text ''m away)'']
                   else [Text ([CHR 0xE2, CHR 0x9D, CHR 0x8C] @ '' Location mismatch (''),
                         Shown (Math_round (calculateDistance lat lon targetLat targetLon)),
                         Text ''m away, allowed '', Shown (Math_max (Fin 10) n), Text ''m)''])\<rparr>"
  using assms unfolding verifyLocation_try_def Let_def by simp

lemma ToString_exn_message: "ToString_exn v = Some e \<Longrightarrow> exn_message e \<noteq> []"
  and join_exn_message: "join_exn xs = Some e \<Longrightarrow> exn_message e \<noteq> []"
  by (induction v and xs arbitrary: e and e rule: ToString_exn_join_exn.induct)
     (auto split: if_splits option.splits)

lemma ToNumber_exn_message: "ToNumber v = Inl e \<Longrightarrow> exn_message e \<noteq> []"
  by (induction v arbitrary: e rule: ToNumber.induct)
     (auto split: if_splits option.splits jsval.splits
           dest: join_exn_message ToString_exn_message)


section \<open>Properties of \<open>verifyLocation\<close>\<close>

text \<open>
  Claim C6.  When the submitted latitude or longitude is not a number, whatever the target
  is, \<open>verifyLocation\<close> returns \<^verbatim>\<open>passed: false\<close>, \<^verbatim>\<open>distanceMeters: null\<close>, the
  message \<^verbatim>\<open>Location data not provided\<close>, and as \<^verbatim>\<open>allowedRadius\<close> the target's
  \<^verbatim>\<open>radiusMeters\<close> when there is one (a truthy value), \<^verbatim>\<open>null\<close> otherwise.
\<close>

theorem verifyLocation_missing_data:
  assumes "\<not> (is_number (opt_get_prop s ''latitude'') \<and> is_number (opt_get_prop s ''longitude''))"
  shows "verifyLocation s t =
           Inr \<lparr>VerificationResult.passed = False, withinRadius = False, distanceMeters = JNull,
                allowedRadius =
                  (if ToBoolean (opt_get_prop t ''radiusMeters'')
                   then opt_get_prop t ''radiusMeters'' else JNull),
                message = [Text ''Location data not provided'']\<rparr>"
  by (simp add: verifyLocation_def try_missing[OF assms] js_or_def)

theorem verifyLocation_missing_data_witness:
  "\<not> (is_number (opt_get_prop (JObj []) ''latitude'') \<and> is_number (opt_get_prop (JObj []) ''longitude'')) \<and>
   verifyLocation (JObj []) (JObj [(''coordinates'', JArr [JNum (Fin 0), JNum (Fin 0)]), (''radiusMeters'', JNum (Fin 25))]) =
     Inr \<lparr>VerificationResult.passed = False, withinRadius = False, distanceMeters = JNull,
          allowedRadius = JNum (Fin 25),
          message = [Text ''Location data not provided'']\<rparr> \<and>
   verifyLocation (JObj [(''latitude'', JStr ''10''), (''longitude'', JNum (Fin 10))]) JUndefined =
     Inr \<lparr>VerificationResult.passed = False, withinRadius = False, distanceMeters = JNull,
          allowedRadius = JNull,
          message = [Text ''Location data not provided'']\<rparr>"
  using verifyLocation_missing_data[of "JObj []" "JObj [(''coordinates'', JArr [JNum (Fin 0), JNum (Fin 0)]), (''radiusMeters'', JNum (Fin 25))]"]
        verifyLocation_missing_data[of "JObj [(''latitude'', JStr ''10''), (''longitude'', JNum (Fin 10))]" JUndefined]
  by simp

text \<open>
  Claim C1 (amended).  Let the submitted latitude and longitude be numbers, the target's
  coordinates a two-element array \<^verbatim>\<open>[longitude, latitude]\<close>, and both points valid for
  \<open>isValidCoordinates\<close>.  When \<^verbatim>\<open>Number\<close> converts the target's radius (or 50 in its
  absence) to a number \<open>n\<close>, \<open>verifyLocation\<close> returns \<^verbatim>\<open>distanceMeters\<close> equal to the value
  of \<open>calculateDistance\<close> rounded by \<^verbatim>\<open>Math.round\<close>, \<^verbatim>\<open>withinRadius\<close> equal to
  \<^verbatim>\<open>distanceMeters <= allowedRadius\<close>, and \<^verbatim>\<open>passed\<close> equal to \<^verbatim>\<open>withinRadius\<close>.  When the
  conversion throws, the result is that of the \<^verbatim>\<open>catch\<close> block: \<^verbatim>\<open>passed: false\<close>,
  \<^verbatim>\<open>distanceMeters: null\<close> and the message of the exception.  In particular
  \<^verbatim>\<open>verifyLocation({latitude:10, longitude:10}, {coordinates:[10,10], radiusMeters:50})\<close>
  passes with a distance of 0.
\<close>

theorem verifyLocation_distance:
  assumes "opt_get_prop s ''latitude'' = JNum lat" "opt_get_prop s ''longitude'' = JNum lon"
    and "opt_get_prop t ''coordinates'' = JArr [c0, c1]"
    and "ToNumber c0 = Inr targetLon" "ToNumber c1 = Inr targetLat"
    and "isValidCoordinates (JNum lat) (JNum lon)" "isValidCoordinates (JNum targetLat) (JNum targetLon)"
  shows "(\<forall>n. ToNumber (js_or (opt_get_prop t ''radiusMeters'') (JNum (Fin 50))) = Inr n \<longrightarrow>
            (\<exists>r. verifyLocation s t = Inr r \<and>
               distanceMeters r = JNum (Math_round (calculateDistance lat lon targetLat targetLon)) \<and>
               allowedRadius r = JNum (Math_max (Fin 10) n) \<and>
               withinRadius r =
                 js_le (Math_round (calculateDistance lat lon targetLat targetLon))
                       (Math_max (Fin 10) n) \<and>
               VerificationResult.passed r = withinRadius r)) \<and>
         (\<forall>e. ToNumber (js_or (opt_get_prop t ''radiusMeters'') (JNum (Fin 50))) = Inl e \<longrightarrow>
            verifyLocation s t =
              Inr \<lparr>VerificationResult.passed = False, withinRadius = False,
                   distanceMeters = JNull,
                   allowedRadius = js_or (opt_get_prop t ''radiusMeters'') JNull,
                   message = [Text (exn_message e)]\<rparr>) \<and>
         verifyLocation
           (JObj [(''latitude'', JNum (Fin 10)), (''longitude'', JNum (Fin 10))])
           (JObj [(''coordinates'', JArr [JNum (Fin 10), JNum (Fin 10)]),
                  (''radiusMeters'', JNum (Fin 50))]) =
           Inr \<lparr>VerificationResult.passed = True, withinRadius = True,
                distanceMeters = JNum (Fin 0), allowedRadius = JNum (Fin 50),
                message = [Text ([CHR 0xE2, CHR 0x9C, CHR 0x85] @ '' Location verified (''),
                           Shown (Fin 0), Text ''m away)'']\<rparr>"
proof (intro conjI allI impI)
  fix n
  assume n: "ToNumber (js_or (opt_get_prop t ''radiusMeters'') (JNum (Fin 50))) = Inr n"
  show "\<exists>r. verifyLocation s t = Inr r \<and>
            distanceMeters r = JNum (Math_round (calculateDistance lat lon targetLat targetLon)) \<and>
            allowedRadius r = JNum (Math_max (Fin 10) n) \<and>
            withinRadius r =
              js_le (Math_round (calculateDistance lat lon targetLat targetLon))
                    (Math_max (Fin 10) n) \<and>
            VerificationResult.passed r = withinRadius r"
    by (simp add: verifyLocation_def try_distance[OF assms(1,2) n assms(3,4,5,6,7)])
next
  fix e
  assume e: "ToNumber (js_or (opt_get_prop t ''radiusMeters'') (JNum (Fin 50))) = Inl e"
  show "verifyLocation s t =
          Inr \<lparr>VerificationResult.passed = False, withinRadius = False,
               distanceMeters = JNull,
               allowedRadius = js_or (opt_get_prop t ''radiusMeters'') JNull,
               message = [Text (exn_message e)]\<rparr>"
    using ToNumber_exn_message[OF e]
    by (simp add: verifyLocation_def verifyLocation_catch_def try_radius_fault[OF assms(1,2) e])
next
  have "verifyLocation_try
           (JObj [(''latitude'', JNum (Fin 10)), (''longitude'', JNum (Fin 10))])
           (JObj [(''coordinates'', JArr [JNum (Fin 10), JNum (Fin 10)]),
                  (''radiusMeters'', JNum (Fin 50))]) =
           Inr \<lparr>VerificationResult.passed = True, withinRadius = True,
                distanceMeters = JNum (Fin 0), allowedRadius = JNum (Fin 50),
                message = [Text ([CHR 0xE2, CHR 0x9C, CHR 0x85] @ '' Location verified (''),
                           Shown (Fin 0), Text ''m away)'']\<rparr>"
    by (subst try_distance[where lat = "Fin 10" and lon = "Fin 10" and n = "Fin 50"
          and ?c0.0 = "JNum (Fin 10)" and ?c1.0 = "JNum (Fin 10)"
          and targetLon = "Fin 10" and targetLat = "Fin 10"])
       (simp_all add: js_or_def js_ge_def calculateDistance_same)
  then show "verifyLocation
           (JObj [(''latitude'', JNum (Fin 10)), (''longitude'', JNum (Fin 10))])
           (JObj [(''coordinates'', JArr [JNum (Fin 10), JNum (Fin 10)]),
                  (''radiusMeters'', JNum (Fin 50))]) =
           Inr \<lparr>VerificationResult.passed = True, withinRadius = True,
                distanceMeters = JNum (Fin 0), allowedRadius = JNum (Fin 50),
                message = [Text ([CHR 0xE2, CHR 0x9C, CHR 0x85] @ '' Location verified (''),
                           Shown (Fin 0), Text ''m away)'']\<rparr>"
    by (simp add: verifyLocation_def)
qed

theorem verifyLocation_distance_witness:
  "(\<exists>r. verifyLocation
          (JObj [(''latitude'', JNum (Fin 0)), (''longitude'', JNum (Fin 0)),
                 (''accuracy'', JNum (Fin 12))])
          (JObj [(''coordinates'', JArr [JStr ''0.0000989'', JNum (Fin 0)]),
                 (''radiusMeters'', JNum (Fin 5))]) = Inr r \<and>
        distanceMeters r = JNum (Fin 11) \<and> allowedRadius r = JNum (Fin 10) \<and>
        \<not> withinRadius r \<and> \<not> VerificationResult.passed r) \<and>
   verifyLocation
     (JObj [(''latitude'', JNum (Fin 0)), (''longitude'', JNum (Fin 0)),
            (''accuracy'', JNum (Fin 12))])
     (JObj [(''coordinates'', JArr [JStr ''0.0000989'', JNum (Fin 0)]),
            (''radiusMeters'', JSym ''r'')]) =
     Inr \<lparr>VerificationResult.passed = False, withinRadius = False,
          distanceMeters = JNull, allowedRadius = JSym ''r'',
          message = [Text ''Cannot convert a Symbol value to a number'']\<rparr>"
proof -
  have p: "StringToNumber ''0.0000989'' = Fin (989 / 10000000)"
    by (simp add: StringToNumber_def trim_def white_space_def radix_literal_def
          unsigned_decimal_def is_digit_def digit_value_def scale10_def)
  obtain d where d: "calculateDistance (Fin 0) (Fin 0) (Fin 0) (Fin (989 / 10000000)) = Fin d"
    "21 / 2 < d" "d < 23 / 2"
    using distance_example_11 by blast
  have rd: "Math_round (Fin d) = Fin 11" using d(2,3) by (rule round_11)
  have c: "ToNumber (JStr ''0.0000989'') = Inr (Fin (989 / 10000000))" by (simp add: p)
  have v: "isValidCoordinates (JNum (Fin 0)) (JNum (Fin 0))"
          "isValidCoordinates (JNum (Fin 0)) (JNum (Fin (989 / 10000000)))"
    by (simp_all add: js_ge_def)
  have 1: "\<exists>r. verifyLocation
          (JObj [(''latitude'', JNum (Fin 0)), (''longitude'', JNum (Fin 0)),
                 (''accuracy'', JNum (Fin 12))])
          (JObj [(''coordinates'', JArr [JStr ''0.0000989'', JNum (Fin 0)]),
                 (''radiusMeters'', JNum (Fin 5))]) = Inr r \<and>
        distanceMeters r = JNum (Fin 11) \<and> allowedRadius r = JNum (Fin 10) \<and>
        \<not> withinRadius r \<and> \<not> VerificationResult.passed r"
    using verifyLocation_distance[of
        "JObj [(''latitude'', JNum (Fin 0)), (''longitude'', JNum (Fin 0)),
               (''accuracy'', JNum (Fin 12))]"
        "Fin 0" "Fin 0"
        "JObj [(''coordinates'', JArr [JStr ''0.0000989'', JNum (Fin 0)]),
               (''radiusMeters'', JNum (Fin 5))]"
        "JStr ''0.0000989''" "JNum (Fin 0)" "Fin (989 / 10000000)" "Fin 0", OF _ _ _ c _ v]
    unfolding d(1) rd
    by (auto simp add: js_or_def)
  have 2: "verifyLocation
     (JObj [(''latitude'', JNum (Fin 0)), (''longitude'', JNum (Fin 0)),
            (''accuracy'', JNum (Fin 12))])
     (JObj [(''coordinates'', JArr [JStr ''0.0000989'', JNum (Fin 0)]),
            (''radiusMeters'', JSym ''r'')]) =
     Inr \<lparr>VerificationResult.passed = False, withinRadius = False,
          distanceMeters = JNull, allowedRadius = JSym ''r'',
          message = [Text ''Cannot convert a Symbol value to a number'']\<rparr>"
    using verifyLocation_distance[of
        "JObj [(''latitude'', JNum (Fin 0)), (''longitude'', JNum (Fin 0)),
               (''accuracy'', JNum (Fin 12))]"
        "Fin 0" "Fin 0"
        "JObj [(''coordinates'', JArr [JStr ''0.0000989'', JNum (Fin 0)]),
               (''radiusMeters'', JSym ''r'')]"
        "JStr ''0.0000989''" "JNum (Fin 0)" "Fin (989 / 10000000)" "Fin 0", OF _ _ _ c _ v]
    by (auto simp add: js_or_def)
  show ?thesis using 1 2 by blast
qed

text \<open>
  Claim C1 as stated fails.  On the points of its own example, with a \<^verbatim>\<open>radiusMeters\<close>
  that \<^verbatim>\<open>Number\<close> cannot convert (the object \<^verbatim>\<open>{toString: 1}\<close>, as \<^verbatim>\<open>JSON.parse\<close> returns
  it, or a symbol), the conversion throws before any distance is computed and the result
  has \<^verbatim>\<open>distanceMeters: null\<close> and \<^verbatim>\<open>passed: false\<close>, not the distance 0.
\<close>

theorem verifyLocation_distance_counterexample:
  "isValidCoordinates (JNum (Fin 10)) (JNum (Fin 10)) \<and>
   verifyLocation
     (JObj [(''latitude'', JNum (Fin 10)), (''longitude'', JNum (Fin 10))])
     (JObj [(''coordinates'', JArr [JNum (Fin 10), JNum (Fin 10)]),
            (''radiusMeters'', JObj [(''toString'', JNum (Fin 1))])]) =
     Inr \<lparr>VerificationResult.passed = False, withinRadius = False,
          distanceMeters = JNull,
          allowedRadius = JObj [(''toString'', JNum (Fin 1))],
          message = [Text ''Cannot convert object to primitive value'']\<rparr> \<and>
   verifyLocation
     (JObj [(''latitude'', JNum (Fin 10)), (''longitude'', JNum (Fin 10))])
     (JObj [(''coordinates'', JArr [JNum (Fin 10), JNum (Fin 10)]),
            (''radiusMeters'', JSym ''radius'')]) =
     Inr \<lparr>VerificationResult.passed = False, withinRadius = False,
          distanceMeters = JNull, allowedRadius = JSym ''radius'',
          message = [Text ''Cannot convert a Symbol value to a number'']\<rparr>"
  by (simp add: verifyLocation_def verifyLocation_try_def verifyLocation_catch_def js_or_def
        js_ge_def Let_def)

text \<open>
  Claim C2.  For arguments of any shape \<open>verifyLocation\<close> returns a result and no exception
  escapes.  Every failure is a result with \<^verbatim>\<open>passed: false\<close> and a message: missing
  location data, a target without a two-element coordinate array, coordinates out of
  range, and an exception thrown inside the \<^verbatim>\<open>try\<close> block, whose own message becomes the
  message of the result.
\<close>

theorem verifyLocation_never_throws:
  "\<exists>r. verifyLocation s t = Inr r \<and> message r \<noteq> [] \<and>
     (\<not> (is_number (opt_get_prop s ''latitude'') \<and> is_number (opt_get_prop s ''longitude'')) \<longrightarrow>
        \<not> VerificationResult.passed r \<and> message r = [Text ''Location data not provided'']) \<and>
     (is_number (opt_get_prop s ''latitude'') \<and> is_number (opt_get_prop s ''longitude'') \<and>
      (\<exists>n. ToNumber (js_or (opt_get_prop t ''radiusMeters'') (JNum (Fin 50))) = Inr n) \<and>
      (\<forall>c0 c1. opt_get_prop t ''coordinates'' \<noteq> JArr [c0, c1]) \<longrightarrow>
        \<not> VerificationResult.passed r \<and>
        message r = [Text ''Quest target location not configured'']) \<and>
     (\<forall>lat lon c0 c1 n targetLon targetLat.
        opt_get_prop s ''latitude'' = JNum lat \<and> opt_get_prop s ''longitude'' = JNum lon \<and>
        ToNumber (js_or (opt_get_prop t ''radiusMeters'') (JNum (Fin 50))) = Inr n \<and>
        opt_get_prop t ''coordinates'' = JArr [c0, c1] \<and>
        ToNumber c0 = Inr targetLon \<and> ToNumber c1 = Inr targetLat \<and>
        \<not> (isValidCoordinates (JNum lat) (JNum lon) \<and>
           isValidCoordinates (JNum targetLat) (JNum targetLon)) \<longrightarrow>
        \<not> VerificationResult.passed r \<and> message r = [Text ''Invalid coordinates'']) \<and>
     (\<forall>e. verifyLocation_try s t = Inl e \<longrightarrow>
        \<not> VerificationResult.passed r \<and> exn_message e \<noteq> [] \<and>
        message r = [Text (exn_message e)])"
proof (cases "is_number (opt_get_prop s ''latitude'') \<and> is_number (opt_get_prop s ''longitude'')")
  case False
  show ?thesis using False by (auto simp add: verifyLocation_def try_missing[OF False])
next
  case True
  then obtain lat lon where
    ll: "opt_get_prop s ''latitude'' = JNum lat" "opt_get_prop s ''longitude'' = JNum lon"
    by (cases "opt_get_prop s ''latitude''"; cases "opt_get_prop s ''longitude''") auto
  show ?thesis
  proof (cases "ToNumber (js_or (opt_get_prop t ''radiusMeters'') (JNum (Fin 50)))")
    case (Inl e)
    show ?thesis
      using ll Inl ToNumber_exn_message[OF Inl]
      by (simp add: verifyLocation_def verifyLocation_catch_def try_radius_fault[OF ll Inl])
  next
    case (Inr n)
    show ?thesis
    proof (cases "\<exists>c0 c1. opt_get_prop t ''coordinates'' = JArr [c0, c1]")
      case False
      then have nc: "\<And>c0 c1. opt_get_prop t ''coordinates'' \<noteq> JArr [c0, c1]" by blast
      show ?thesis
        using ll Inr nc by (simp add: verifyLocation_def try_not_configured[OF ll Inr nc])
    next
      case True
      then obtain c0 c1 where cs: "opt_get_prop t ''coordinates'' = JArr [c0, c1]" by blast
      show ?thesis
      proof (cases "ToNumber c0")
        case (Inl e)
        show ?thesis
          using ll Inr cs Inl ToNumber_exn_message[OF Inl]
          by (simp add: verifyLocation_def verifyLocation_catch_def try_lon_fault[OF ll Inr cs Inl])
      next
        case c0: (Inr targetLon)
        show ?thesis
        proof (cases "ToNumber c1")
          case (Inl e)
          show ?thesis
            using ll Inr cs c0 Inl ToNumber_exn_message[OF Inl]
            by (simp add: verifyLocation_def verifyLocation_catch_def
                  try_lat_fault[OF ll Inr cs c0 Inl])
        next
          case c1: (Inr targetLat)
          show ?thesis
          proof (cases "isValidCoordinates (JNum lat) (JNum lon) \<and>
                        isValidCoordinates (JNum targetLat) (JNum targetLon)")
            case False
            show ?thesis
              using ll Inr cs c0 c1 False
              by (simp add: verifyLocation_def try_invalid[OF ll Inr cs c0 c1 False])
          next
            case True
            then have v: "isValidCoordinates (JNum lat) (JNum lon)"
                         "isValidCoordinates (JNum targetLat) (JNum targetLon)" by simp_all
            show ?thesis
              using ll Inr cs c0 c1 v
              by (simp add: verifyLocation_def try_distance[OF ll Inr cs c0 c1 v])
          qed
        qed
      qed
    qed
  qed
qed


theorem verifyLocation_never_throws_witness:
  "(\<exists>r. verifyLocation (JObj []) JNull = Inr r \<and>
        \<not> VerificationResult.passed r \<and> message r = [Text ''Location data not provided'']) \<and>
   (\<exists>r. verifyLocation (JObj [(''latitude'', JNum (Fin 1)), (''longitude'', JNum (Fin 2))])
          (JObj [(''radiusMeters'', JNum (Fin 30))]) = Inr r \<and>
        \<not> VerificationResult.passed r \<and>
        message r = [Text ''Quest target location not configured'']) \<and>
   (\<exists>r. verifyLocation (JObj [(''latitude'', JNum (Fin 1)), (''longitude'', JNum (Fin 2))])
          (JObj [(''coordinates'', JArr [JNum (Fin 200), JNum (Fin 0)])]) = Inr r \<and>
        \<not> VerificationResult.passed r \<and> message r = [Text ''Invalid coordinates'']) \<and>
   (\<exists>r. verifyLocation (JObj [(''latitude'', JNum (Fin 1)), (''longitude'', JNum (Fin 2))])
          (JObj [(''coordinates'', JArr [JSym ''lng'', JNum (Fin 0)])]) = Inr r \<and>
        \<not> VerificationResult.passed r \<and>
        message r = [Text ''Cannot convert a Symbol value to a number''])"
proof -
  have f: "verifyLocation_try (JObj [(''latitude'', JNum (Fin 1)), (''longitude'', JNum (Fin 2))])
             (JObj [(''coordinates'', JArr [JSym ''lng'', JNum (Fin 0)])]) =
           Inl (TypeError ''Cannot convert a Symbol value to a number'')"
    by (simp add: verifyLocation_try_def js_or_def)
  show ?thesis
    using verifyLocation_never_throws[of "JObj []" JNull]
      verifyLocation_never_throws[of "JObj [(''latitude'', JNum (Fin 1)), (''longitude'', JNum (Fin 2))]"
        "JObj [(''radiusMeters'', JNum (Fin 30))]"]
      verifyLocation_never_throws[of "JObj [(''latitude'', JNum (Fin 1)), (''longitude'', JNum (Fin 2))]"
        "JObj [(''coordinates'', JArr [JNum (Fin 200), JNum (Fin 0)])]"]
      verifyLocation_never_throws[of "JObj [(''latitude'', JNum (Fin 1)), (''longitude'', JNum (Fin 2))]"
        "JObj [(''coordinates'', JArr [JSym ''lng'', JNum (Fin 0)])]"]
    by (auto simp add: f js_or_def js_ge_def)
qed


lemma try_Inr_radius:
  assumes "opt_get_prop s ''latitude'' = JNum lat" "opt_get_prop s ''longitude'' = JNum lon"
    and "verifyLocation_try s t = Inr r"
  shows "\<exists>n. ToNumber (js_or (opt_get_prop t ''radiusMeters'') (JNum (Fin 50))) = Inr n \<and>
             allowedRadius r = JNum (Math_max (Fin 10) n)"
proof (cases "ToNumber (js_or (opt_get_prop t ''radiusMeters'') (JNum (Fin 50)))")
  case (Inl e)
  then show ?thesis using try_radius_fault[OF assms(1,2) Inl] assms(3) by simp
next
  case (Inr n)
  have "allowedRadius r = JNum (Math_max (Fin 10) n)"
    using assms Inr unfolding verifyLocation_try_def Let_def
    by (auto split: jsval.splits if_splits sum.splits)
  then show ?thesis using Inr by simp
qed

lemma Math_max_10: "n \<noteq> NaN \<Longrightarrow> js_le (Fin 10) (Math_max (Fin 10) n)"
  by (cases n) auto

lemma radius_plain:
  assumes "is_number rad \<or> rad = JUndefined \<or> rad = JNull"
    and "ToNumber (js_or rad (JNum (Fin 50))) = Inr n"
  shows "spec_allowedRadius rad = Inr (Math_max (Fin 10) n) \<and> n \<noteq> NaN"
  using assms by (cases rad) (auto simp add: spec_allowedRadius_def js_or_def split: if_splits)


text \<open>
  Claim C3 (amended).  Let the submitted latitude and longitude be numbers.  When no exception
  is thrown inside the \<^verbatim>\<open>try\<close> block, the result's \<^verbatim>\<open>allowedRadius\<close> is
  \<^verbatim>\<open>max(10, Number(radiusMeters || 50))\<close>, whatever the outcome; for a \<^verbatim>\<open>radiusMeters\<close>
  that is a number, \<^verbatim>\<open>null\<close> or \<^verbatim>\<open>undefined\<close> this is the specification's
  \<^verbatim>\<open>max(10, numeric(radiusMeters) or 50)\<close> and at least 10, and it is 50 when
  \<^verbatim>\<open>radiusMeters\<close> is falsy (absent, 0, \<open>NaN\<close>).  When an exception is thrown, the
  result carries \<^verbatim>\<open>radiusMeters || null\<close> unchanged.  For every such location,
  \<^verbatim>\<open>verifyLocation(loc, {coordinates:[0,0], radiusMeters:5})\<close> has the allowed radius 10.
\<close>

theorem verifyLocation_allowedRadius:
  assumes "is_number (opt_get_prop s ''latitude'')" "is_number (opt_get_prop s ''longitude'')"
  shows "(\<exists>r. verifyLocation s t = Inr r \<and>
            ((\<forall>e. verifyLocation_try s t \<noteq> Inl e) \<longrightarrow>
               (\<exists>n. ToNumber (js_or (opt_get_prop t ''radiusMeters'') (JNum (Fin 50))) = Inr n \<and>
                    allowedRadius r = JNum (Math_max (Fin 10) n)) \<and>
               (is_number (opt_get_prop t ''radiusMeters'') \<or>
                opt_get_prop t ''radiusMeters'' = JUndefined \<or>
                opt_get_prop t ''radiusMeters'' = JNull \<longrightarrow>
                  (\<exists>m. spec_allowedRadius (opt_get_prop t ''radiusMeters'') = Inr m \<and>
                       allowedRadius r = JNum m \<and> js_le (Fin 10) m)) \<and>
               (\<not> ToBoolean (opt_get_prop t ''radiusMeters'') \<longrightarrow>
                  allowedRadius r = JNum (Fin 50))) \<and>
            ((\<exists>e. verifyLocation_try s t = Inl e) \<longrightarrow>
               allowedRadius r = js_or (opt_get_prop t ''radiusMeters'') JNull)) \<and>
         (\<exists>r. verifyLocation s
                 (JObj [(''coordinates'', JArr [JNum (Fin 0), JNum (Fin 0)]),
                        (''radiusMeters'', JNum (Fin 5))]) = Inr r \<and>
              allowedRadius r = JNum (Fin 10))"
proof -
  obtain lat lon where
    ll: "opt_get_prop s ''latitude'' = JNum lat" "opt_get_prop s ''longitude'' = JNum lon"
    using assms by (cases "opt_get_prop s ''latitude''"; cases "opt_get_prop s ''longitude''") auto
  have 1: "\<exists>r. verifyLocation s t = Inr r \<and>
            ((\<forall>e. verifyLocation_try s t \<noteq> Inl e) \<longrightarrow>
               (\<exists>n. ToNumber (js_or (opt_get_prop t ''radiusMeters'') (JNum (Fin 50))) = Inr n \<and>
                    allowedRadius r = JNum (Math_max (Fin 10) n)) \<and>
               (is_number (opt_get_prop t ''radiusMeters'') \<or>
                opt_get_prop t ''radiusMeters'' = JUndefined \<or>
                opt_get_prop t ''radiusMeters'' = JNull \<longrightarrow>
                  (\<exists>m. spec_allowedRadius (opt_get_prop t ''radiusMeters'') = Inr m \<and>
                       allowedRadius r = JNum m \<and> js_le (Fin 10) m)) \<and>
               (\<not> ToBoolean (opt_get_prop t ''radiusMeters'') \<longrightarrow>
                  allowedRadius r = JNum (Fin 50))) \<and>
            ((\<exists>e. verifyLocation_try s t = Inl e) \<longrightarrow>
               allowedRadius r = js_or (opt_get_prop t ''radiusMeters'') JNull)"
  proof (cases "verifyLocation_try s t")
    case (Inl e)
    then show ?thesis by (simp add: verifyLocation_def verifyLocation_catch_def)
  next
    case (Inr r)
    obtain n where
      n: "ToNumber (js_or (opt_get_prop t ''radiusMeters'') (JNum (Fin 50))) = Inr n"
         "allowedRadius r = JNum (Math_max (Fin 10) n)"
      using try_Inr_radius[OF ll Inr] by blast
    have p: "is_number (opt_get_prop t ''radiusMeters'') \<or>
             opt_get_prop t ''radiusMeters'' = JUndefined \<or>
             opt_get_prop t ''radiusMeters'' = JNull \<Longrightarrow>
             spec_allowedRadius (opt_get_prop t ''radiusMeters'') = Inr (Math_max (Fin 10) n) \<and>
             js_le (Fin 10) (Math_max (Fin 10) n)"
      using radius_plain[OF _ n(1)] Math_max_10[of n] by blast
    have q: "\<not> ToBoolean (opt_get_prop t ''radiusMeters'') \<Longrightarrow> n = Fin 50"
      using n(1) by (simp add: js_or_def)
    show ?thesis using Inr n p q by (auto simp add: verifyLocation_def)
  qed
  have r5: "ToNumber (js_or (opt_get_prop (JObj [(''coordinates'', JArr [JNum (Fin 0), JNum (Fin 0)]),
                        (''radiusMeters'', JNum (Fin 5))]) ''radiusMeters'') (JNum (Fin 50))) = Inr (Fin 5)"
    by (simp add: js_or_def)
  have c5: "opt_get_prop (JObj [(''coordinates'', JArr [JNum (Fin 0), JNum (Fin 0)]),
                        (''radiusMeters'', JNum (Fin 5))]) ''coordinates'' = JArr [JNum (Fin 0), JNum (Fin 0)]"
    by simp
  have z: "ToNumber (JNum (Fin 0)) = Inr (Fin 0)" by simp
  have 2: "\<exists>r. verifyLocation s
                 (JObj [(''coordinates'', JArr [JNum (Fin 0), JNum (Fin 0)]),
                        (''radiusMeters'', JNum (Fin 5))]) = Inr r \<and>
              allowedRadius r = JNum (Fin 10)"
  proof (cases "isValidCoordinates (JNum lat) (JNum lon) \<and>
                isValidCoordinates (JNum (Fin 0)) (JNum (Fin 0))")
    case False
    show ?thesis by (simp add: verifyLocation_def try_invalid[OF ll r5 c5 z z False])
  next
    case True
    then have v: "isValidCoordinates (JNum lat) (JNum lon)"
                 "isValidCoordinates (JNum (Fin 0)) (JNum (Fin 0))" by simp_all
    show ?thesis by (simp add: verifyLocation_def try_distance[OF ll r5 c5 z z v])
  qed
  show ?thesis using 1 2 by blast
qed

theorem verifyLocation_allowedRadius_witness:
  "is_number (opt_get_prop (JObj [(''latitude'', JNum (Fin 0)), (''longitude'', JNum (Fin 0))]) ''latitude'') \<and>
   is_number (opt_get_prop (JObj [(''latitude'', JNum (Fin 0)), (''longitude'', JNum (Fin 0))]) ''longitude'') \<and>
   (\<exists>r. verifyLocation (JObj [(''latitude'', JNum (Fin 0)), (''longitude'', JNum (Fin 0))])
          (JObj [(''coordinates'', JArr [JNum (Fin 0), JNum (Fin 0)])]) = Inr r \<and>
        allowedRadius r = JNum (Fin 50))"
proof -
  have f: "verifyLocation_try (JObj [(''latitude'', JNum (Fin 0)), (''longitude'', JNum (Fin 0))])
          (JObj [(''coordinates'', JArr [JNum (Fin 0), JNum (Fin 0)])]) = Inl e \<Longrightarrow> False" for e
    by (simp add: verifyLocation_try_def js_or_def Let_def split: if_splits)
  show ?thesis
    using verifyLocation_allowedRadius[of "JObj [(''latitude'', JNum (Fin 0)), (''longitude'', JNum (Fin 0))]"
          "JObj [(''coordinates'', JArr [JNum (Fin 0), JNum (Fin 0)])]"] f
    by auto
qed

text \<open>
  Claim C3 as stated fails.  A radius that is no number but truthy is converted as it is:
  for \<^verbatim>\<open>radiusMeters: 'abc'\<close> the allowed radius is \<open>NaN\<close>, not 50, and a user standing on
  the target is rejected.  And when a coordinate cannot be converted, the result of the
  \<^verbatim>\<open>catch\<close> block carries the radius 5 as it is, not 10.
\<close>

theorem verifyLocation_allowedRadius_counterexample:
  "verifyLocation (JObj [(''latitude'', JNum (Fin 0)), (''longitude'', JNum (Fin 0))])
     (JObj [(''coordinates'', JArr [JNum (Fin 0), JNum (Fin 0)]), (''radiusMeters'', JStr ''abc'')]) =
     Inr \<lparr>VerificationResult.passed = False, withinRadius = False,
          distanceMeters = JNum (Fin 0), allowedRadius = JNum NaN,
          message = [Text ([CHR 0xE2, CHR 0x9D, CHR 0x8C] @ '' Location mismatch (''),
                     Shown (Fin 0), Text ''m away, allowed '', Shown NaN, Text ''m)'']\<rparr> \<and>
   spec_allowedRadius (JStr ''abc'') = Inr (Fin 50) \<and>
   verifyLocation (JObj [(''latitude'', JNum (Fin 0)), (''longitude'', JNum (Fin 0))])
     (JObj [(''coordinates'', JArr [JSym ''lng'', JNum (Fin 0)]), (''radiusMeters'', JNum (Fin 5))]) =
     Inr \<lparr>VerificationResult.passed = False, withinRadius = False,
          distanceMeters = JNull, allowedRadius = JNum (Fin 5),
          message = [Text ''Cannot convert a Symbol value to a number'']\<rparr> \<and>
   spec_allowedRadius (JNum (Fin 5)) = Inr (Fin 10)"
proof -
  have p: "StringToNumber ''abc'' = NaN"
    by (simp add: StringToNumber_def trim_def white_space_def radix_literal_def
          unsigned_decimal_def is_digit_def digit_value_def)
  show ?thesis
    by (simp add: verifyLocation_def verifyLocation_try_def verifyLocation_catch_def js_or_def
          spec_allowedRadius_def p js_ge_def calculateDistance_same Let_def)
qed


section \<open>Properties of \<open>findNearby\<close>\<close>

lemma Math_atan2_not_inf: "Math_atan2 p q \<noteq> PInf \<and> Math_atan2 p q \<noteq> NInf"
  by (cases p; cases q) simp_all

lemma calculateDistance_not_inf:
  "calculateDistance a b c d \<noteq> PInf \<and> calculateDistance a b c d \<noteq> NInf"
proof -
  have "js_mul (Fin R) (js_mul (Fin 2) z) \<noteq> PInf \<and> js_mul (Fin R) (js_mul (Fin 2) z) \<noteq> NInf"
    if "z \<noteq> PInf \<and> z \<noteq> NInf" for R z
    using that by (cases z) simp_all
  then show ?thesis
    unfolding calculateDistance_def Let_def using Math_atan2_not_inf by blast
qed

lemma js_le_Fin: "js_le d m \<Longrightarrow> d \<noteq> PInf \<and> d \<noteq> NInf \<Longrightarrow> \<exists>r. d = Fin r"
  by (cases d) auto

lemma kept_Fin:
  assumes "y \<in> set (filter (\<lambda>r. js_le (Nearby.distance r) maxd)
                     (map (with_distance userLat userLon) locations))"
  shows "\<exists>r. Nearby.distance y = Fin r"
proof -
  obtain l where "y = with_distance userLat userLon l" using assms by auto
  then have "Nearby.distance y \<noteq> PInf \<and> Nearby.distance y \<noteq> NInf"
    using calculateDistance_not_inf by (simp add: with_distance_def)
  moreover have "js_le (Nearby.distance y) maxd" using assms by simp
  ultimately show ?thesis using js_le_Fin by blast
qed

lemma js_insort_insort_key:
  assumes "\<forall>y \<in> set (x # ys). \<exists>r. f y = Fin r"
  shows "js_insort (\<lambda>a b. js_sub (f a) (f b)) x ys = insort_key (\<lambda>a. fin_value (f a)) x ys"
  using assms
proof (induction ys)
  case Nil
  show ?case by simp
next
  case (Cons y ys)
  obtain a b where ab: "f x = Fin a" "f y = Fin b" using Cons.prems by auto
  have "js_insort (\<lambda>a b. js_sub (f a) (f b)) x ys = insort_key (\<lambda>a. fin_value (f a)) x ys"
    using Cons by simp
  then show ?case using ab by (auto simp add: js_sub_Fin js_gt_def)
qed

lemma Array_sort_sort_key:
  assumes "\<forall>y \<in> set xs. \<exists>r. f y = Fin r"
  shows "Array_sort (\<lambda>a b. js_sub (f a) (f b)) xs = sort_key (\<lambda>a. fin_value (f a)) xs"
  using assms
proof (induction xs)
  case Nil
  show ?case by (simp add: Array_sort_def)
next
  case (Cons x xs)
  have ih: "Array_sort (\<lambda>a b. js_sub (f a) (f b)) xs = sort_key (\<lambda>a. fin_value (f a)) xs"
    using Cons by simp
  have "\<forall>y \<in> set (x # sort_key (\<lambda>a. fin_value (f a)) xs). \<exists>r. f y = Fin r"
    using Cons.prems by simp
  then have "js_insort (\<lambda>a b. js_sub (f a) (f b)) x (sort_key (\<lambda>a. fin_value (f a)) xs)
             = insort_key (\<lambda>a. fin_value (f a)) x (sort_key (\<lambda>a. fin_value (f a)) xs)"
    by (rule js_insort_insort_key)
  then show ?case using ih by (simp add: Array_sort_def sort_key_def)
qed

lemma findNearby_sort_key:
  "findNearby userLat userLon locations maxd =
     sort_key (\<lambda>r. fin_value (Nearby.distance r))
       (filter (\<lambda>r. js_le (Nearby.distance r) maxd) (map (with_distance userLat userLon) locations))"
proof -
  have "findNearby userLat userLon locations maxd =
      Array_sort (\<lambda>a b. js_sub (Nearby.distance a) (Nearby.distance b))
               (filter (\<lambda>r. js_le (Nearby.distance r) maxd)
                 (map (with_distance userLat userLon) locations))"
    unfolding findNearby_def with_distance_def Let_def by (rule refl)
  also have "\<dots> = sort_key (\<lambda>r. fin_value (Nearby.distance r))
               (filter (\<lambda>r. js_le (Nearby.distance r) maxd)
                 (map (with_distance userLat userLon) locations))"
    by (rule Array_sort_sort_key) (use kept_Fin in blast)
  finally show ?thesis .
qed

lemma sorted_fin:
  assumes "sorted (map (\<lambda>a. fin_value (f a)) xs)" "\<forall>y \<in> set xs. \<exists>r. f y = Fin r"
  shows "sorted_wrt (\<lambda>a b. js_le (f a) (f b)) xs"
  using assms
proof (induction xs)
  case Nil
  show ?case by simp
next
  case (Cons x xs)
  have "js_le (f x) (f y)" if "y \<in> set xs" for y
  proof -
    have "\<exists>a. f x = Fin a" "\<exists>b. f y = Fin b" using Cons.prems(2) that by auto
    then obtain a b where ab: "f x = Fin a" "f y = Fin b" by blast
    have "fin_value (f x) \<le> fin_value (f y)" using Cons.prems(1) that by auto
    then show ?thesis using ab by simp
  qed
  then show ?case using Cons by auto
qed

lemma filter_distance_Fin:
  assumes "\<forall>y \<in> set zs. \<exists>r. f y = Fin r"
  shows "filter (\<lambda>y. f y = Fin r) zs = filter (\<lambda>y. fin_value (f y) = r) zs"
  using assms by (intro filter_cong) auto

lemma filter_distance_not_Fin:
  assumes "\<forall>y \<in> set zs. \<exists>r. f y = Fin r" "\<And>r. d \<noteq> Fin r"
  shows "filter (\<lambda>y. f y = d) zs = []"
  using assms by (auto simp add: filter_empty_conv)

text \<open>
  Claim C7.  For every user point, list of candidates and maximal distance, the result of
  \<open>findNearby\<close> holds exactly the candidates whose distance from the user point is at most
  the maximal distance (as many times as they occur), each with its distance attached; it
  is sorted by ascending distance; and the candidates at any one distance stand in the
  order of the input.
\<close>

theorem findNearby_sorted_stable:
  "mset (findNearby userLat userLon locations maxd) =
     mset (filter (\<lambda>r. js_le (Nearby.distance r) maxd)
            (map (with_distance userLat userLon) locations)) \<and>
   sorted_wrt (\<lambda>a b. js_le (Nearby.distance a) (Nearby.distance b))
     (findNearby userLat userLon locations maxd) \<and>
   (\<forall>d. filter (\<lambda>r. Nearby.distance r = d) (findNearby userLat userLon locations maxd) =
        filter (\<lambda>r. Nearby.distance r = d)
          (filter (\<lambda>r. js_le (Nearby.distance r) maxd)
            (map (with_distance userLat userLon) locations)))"
proof (intro conjI allI)
  let ?kept = "filter (\<lambda>r. js_le (Nearby.distance r) maxd)
                 (map (with_distance userLat userLon) locations)"
  let ?key = "\<lambda>r :: 'a Nearby. fin_value (Nearby.distance r)"
  have fin: "\<forall>y \<in> set ?kept. \<exists>r. Nearby.distance y = Fin r"
    using kept_Fin by blast
  then have fin': "\<forall>y \<in> set (sort_key ?key ?kept). \<exists>r. Nearby.distance y = Fin r"
    by simp
  show "mset (findNearby userLat userLon locations maxd) = mset ?kept"
    unfolding findNearby_sort_key by (rule mset_sort)
  have "sorted (map ?key (sort_key ?key ?kept))"
    by (rule sorted_sort_key)
  then show "sorted_wrt (\<lambda>a b. js_le (Nearby.distance a) (Nearby.distance b))
     (findNearby userLat userLon locations maxd)"
    unfolding findNearby_sort_key using fin' by (rule sorted_fin)
  fix d
  show "filter (\<lambda>r. Nearby.distance r = d) (findNearby userLat userLon locations maxd) =
        filter (\<lambda>r. Nearby.distance r = d) ?kept"
  proof (cases "\<exists>r. d = Fin r")
    case True
    then obtain r where d: "d = Fin r" by blast
    have "filter (\<lambda>y. Nearby.distance y = Fin r) (sort_key ?key ?kept)
          = filter (\<lambda>y. ?key y = r) (sort_key ?key ?kept)"
      using fin' by (rule filter_distance_Fin)
    also have "\<dots> = filter (\<lambda>y. ?key y = r) ?kept"
      by (rule sort_key_stable)
    also have "\<dots> = filter (\<lambda>y. Nearby.distance y = Fin r) ?kept"
      using fin by (rule filter_distance_Fin [symmetric])
    finally show ?thesis unfolding findNearby_sort_key d .
  next
    case False
    then have nf: "\<And>r. d \<noteq> Fin r" by blast
    have "filter (\<lambda>y. Nearby.distance y = d) (sort_key ?key ?kept) = []"
      using fin' nf by (rule filter_distance_not_Fin)
    moreover have "filter (\<lambda>y. Nearby.distance y = d) ?kept = []"
      using fin nf by (rule filter_distance_not_Fin)
    ultimately show ?thesis unfolding findNearby_sort_key by simp
  qed
qed


section \<open>Rounding in \<open>isWithinRadius\<close> and \<open>verifyLocation\<close>\<close>

text \<open>
  Claim C10.  \<open>isWithinRadius\<close> compares the unrounded distance with the radius and
  reports the rounded distance.  For the points \<open>(0, 0)\<close> and \<open>(0, 0.0000918)\<close>, about
  10.2 m apart, and the radius 10 it reports the distance 10, equal to the radius, and
  \<^verbatim>\<open>isWithin: false\<close>; \<open>verifyLocation\<close>, which compares the rounded distance, accepts
  the same points with the same radius.
\<close>

theorem isWithinRadius_rounding:
  "isWithin (isWithinRadius a b c d r) = js_le (calculateDistance a b c d) r \<and>
   WithinRadius.distance (isWithinRadius a b c d r) = Math_round (calculateDistance a b c d) \<and>
   isWithinRadius (Fin 0) (Fin 0) (Fin 0) (Fin (918 / 10000000)) (Fin 10) =
     \<lparr>isWithin = False, WithinRadius.distance = Fin 10, radiusMeters = Fin 10\<rparr> \<and>
   verifyLocation
     (JObj [(''latitude'', JNum (Fin 0)), (''longitude'', JNum (Fin 0))])
     (JObj [(''coordinates'', JArr [JNum (Fin (918 / 10000000)), JNum (Fin 0)]),
            (''radiusMeters'', JNum (Fin 10))]) =
     Inr \<lparr>VerificationResult.passed = True, withinRadius = True,
          distanceMeters = JNum (Fin 10), allowedRadius = JNum (Fin 10),
          message = [Text ([CHR 0xE2, CHR 0x9C, CHR 0x85] @ '' Location verified (''),
                     Shown (Fin 10), Text ''m away)'']\<rparr>"
proof -
  obtain e where e: "calculateDistance (Fin 0) (Fin 0) (Fin 0) (Fin (918 / 10000000)) = Fin e"
    "10 < e" "e < 21 / 2"
    using distance_example by blast
  have rd: "Math_round (Fin e) = Fin 10" using e(2,3) by (rule round_10)
  have e': "calculateDistance (Fin 0) (Fin 0) (Fin 0) (Fin (459 / 5000000)) = Fin e"
    using e(1) by simp
  have 1: "isWithinRadius (Fin 0) (Fin 0) (Fin 0) (Fin (918 / 10000000)) (Fin 10) =
     \<lparr>isWithin = False, WithinRadius.distance = Fin 10, radiusMeters = Fin 10\<rparr>"
    unfolding isWithinRadius_def Let_def e(1) rd using e(2) by simp
  have "verifyLocation_try
     (JObj [(''latitude'', JNum (Fin 0)), (''longitude'', JNum (Fin 0))])
     (JObj [(''coordinates'', JArr [JNum (Fin (918 / 10000000)), JNum (Fin 0)]),
            (''radiusMeters'', JNum (Fin 10))]) =
     Inr \<lparr>VerificationResult.passed = True, withinRadius = True,
          distanceMeters = JNum (Fin 10), allowedRadius = JNum (Fin 10),
          message = [Text ([CHR 0xE2, CHR 0x9C, CHR 0x85] @ '' Location verified (''),
                     Shown (Fin 10), Text ''m away)'']\<rparr>"
    by (subst try_distance[where lat = "Fin 0" and lon = "Fin 0" and n = "Fin 10"
          and ?c0.0 = "JNum (Fin (918 / 10000000))" and ?c1.0 = "JNum (Fin 0)"
          and targetLon = "Fin (918 / 10000000)" and targetLat = "Fin 0"])
       (simp_all add: js_or_def js_ge_def e' rd del: Math_round.simps)
  then have 2: "verifyLocation
     (JObj [(''latitude'', JNum (Fin 0)), (''longitude'', JNum (Fin 0))])
     (JObj [(''coordinates'', JArr [JNum (Fin (918 / 10000000)), JNum (Fin 0)]),
            (''radiusMeters'', JNum (Fin 10))]) =
     Inr \<lparr>VerificationResult.passed = True, withinRadius = True,
          distanceMeters = JNum (Fin 10), allowedRadius = JNum (Fin 10),
          message = [Text ([CHR 0xE2, CHR 0x9C, CHR 0x85] @ '' Location verified (''),
                     Shown (Fin 10), Text ''m away)'']\<rparr>"
    by (simp add: verifyLocation_def)
  have 0: "isWithin (isWithinRadius a b c d r) = js_le (calculateDistance a b c d) r \<and>
   WithinRadius.distance (isWithinRadius a b c d r) = Math_round (calculateDistance a b c d)"
    by (simp add: isWithinRadius_def Let_def)
  show ?thesis using 0 1 2 by blast
qed


end
